theory Spec2Isabelle
  imports Complex_Main "HOL-Library.Char_ord" "HOL-Library.List_Lexorder"
begin

section \<open>Strings\<close>

text \<open>
  A JavaScript string is modelled as a \<^typ>\<open>string\<close> whose characters are the code
  units below 256 (Latin-1).  \<open>toLowerCase\<close> maps A-Z and the upper-case letters of the
  Latin-1 supplement (U+00C0 - U+00DE without the multiplication sign U+00D7) to the
  letter 32 positions later and leaves every other character alone, which is what
  \<open>String.prototype.toLowerCase\<close> does on this range.
\<close>

definition toLowerCase_char :: "char \<Rightarrow> char" where
  "toLowerCase_char c =
     (let n = (of_char c :: nat) in
      if (65 \<le> n \<and> n \<le> 90) \<or> (192 \<le> n \<and> n \<le> 222 \<and> n \<noteq> 215)
      then char_of (n + 32) else c)"

definition toLowerCase :: "string \<Rightarrow> string" where
  "toLowerCase s = map toLowerCase_char s"

fun startsWith :: "string \<Rightarrow> string \<Rightarrow> bool" where
  "startsWith s [] = True"
| "startsWith [] (p # ps) = False"
| "startsWith (c # cs) (p # ps) = (c = p \<and> startsWith cs ps)"

text \<open>\<open>s.includes(sub)\<close>: \<open>sub\<close> occurs in \<open>s\<close> as a contiguous run.\<close>

fun str_includes :: "string \<Rightarrow> string \<Rightarrow> bool" where
  "str_includes [] sub = (sub = [])"
| "str_includes (c # cs) sub = (startsWith (c # cs) sub \<or> str_includes cs sub)"

text \<open>\<open>xs.join(sep)\<close> on an array of strings.\<close>

fun join :: "string \<Rightarrow> string list \<Rightarrow> string" where
  "join sep [] = []"
| "join sep [x] = x"
| "join sep (x # y # ys) = x @ sep @ join sep (y # ys)"


section \<open>Evidence records and the conflict analyzer\<close>

text \<open>
  \<open>interface ExternalFactCheckResult\<close>.  The optional \<open>verdict\<close> is \<open>None\<close> when the
  property is absent or \<open>undefined\<close>.  The confidence of a record is one of the adapters'
  constants; the arithmetic on it is done over the reals.

  The interface declares \<open>summary\<close> and \<open>url\<close> as strings, and \<open>analyzeSourceConflicts\<close>
  is written for records of that type.  The adapters fill the two fields from the payload
  they receive, some of them without looking at what it holds, so the record takes the
  types of the two fields as parameters: strings as declared, JavaScript values as built.
\<close>

record ('s, 'u) ExternalFactCheckResult =
  source :: string
  verdict :: "string option"
  summary :: 's
  url :: 'u
  confidence :: real

text \<open>The truthiness test \<open>r.verdict\<close>: a present, non-empty string.\<close>

definition has_verdict :: "('s, 'u) ExternalFactCheckResult \<Rightarrow> bool" where
  "has_verdict r = (case verdict r of None \<Rightarrow> False | Some v \<Rightarrow> v \<noteq> [])"

definition verdict_text :: "('s, 'u) ExternalFactCheckResult \<Rightarrow> string" where
  "verdict_text r = (case verdict r of None \<Rightarrow> [] | Some v \<Rightarrow> v)"

record ConflictAnalysis =
  hasConflicts :: bool
  conflictSummary :: string

text \<open>The test of the inner loop on the two case-folded summaries, first one first.\<close>

definition opposite_statements :: "string \<Rightarrow> string \<Rightarrow> bool" where
  "opposite_statements summary1 summary2 =
     ((str_includes summary1 ''won'' \<and> str_includes summary2 ''lost'') \<or>
      (str_includes summary1 ''true'' \<and> str_includes summary2 ''false'') \<or>
      (str_includes summary1 ''yes'' \<and> str_includes summary2 ''no''))"

text \<open>
  The nested loops \<open>for i in 0 ..< n, for j in i+1 ..< n\<close>, pushing
  \<open>`${results[i].source} vs ${results[j].source}`\<close> for each pair that passes the test.
\<close>

definition conflict_pairs :: "(string, 'u) ExternalFactCheckResult list \<Rightarrow> string list" where
  "conflict_pairs results =
     (let summaries = map (\<lambda>r. toLowerCase (summary r)) results;
          n = length summaries
      in concat (map (\<lambda>i.
           concat (map (\<lambda>j.
             if opposite_statements (summaries ! i) (summaries ! j)
             then [source (results ! i) @ '' vs '' @ source (results ! j)]
             else [])
           [i + 1 ..< n]))
         [0 ..< n]))"

definition analyzeSourceConflicts ::
  "(string, 'u) ExternalFactCheckResult list \<Rightarrow> ConflictAnalysis" where
  "analyzeSourceConflicts results =
     (if length results < 2 then \<lparr>hasConflicts = False, conflictSummary = []\<rparr>
      else
        let verdicts = map (\<lambda>r. toLowerCase (verdict_text r)) (filter has_verdict results);
            hasTrue = list_ex (\<lambda>v. str_includes v ''true'') verdicts;
            hasFalse = list_ex (\<lambda>v. str_includes v ''false'') verdicts
        in if hasTrue \<and> hasFalse then
             \<lparr>hasConflicts = True,
              conflictSummary =
                ''Sources provide conflicting verdicts (some say true, others say false)''\<rparr>
           else
             let conflicts = conflict_pairs results
             in \<lparr>hasConflicts = (length conflicts > 0),
                 conflictSummary =
                   (if length conflicts > 0
                    then ''Conflicting information between: '' @ join '', '' conflicts
                    else [])\<rparr>)"


section \<open>Errors as values\<close>

text \<open>
  A thrown value: an \<open>Error\<close> with its message, or something that is no \<open>Error\<close>.  The
  code never looks at more than \<open>error instanceof Error ? error.message : "Unknown
  error"\<close>.  A computation that may throw returns \<open>js_error + 'a\<close>.
\<close>

datatype js_error = Error string | NonError

definition error_message :: "js_error \<Rightarrow> string" where
  "error_message e = (case e of Error m \<Rightarrow> m | NonError \<Rightarrow> ''Unknown error'')"

text \<open>\<open>try { body } catch (error) { handler }\<close>\<close>

definition try_catch :: "js_error + 'a \<Rightarrow> (js_error \<Rightarrow> js_error + 'a) \<Rightarrow> js_error + 'a" where
  "try_catch body handler = (case body of Inl e \<Rightarrow> handler e | Inr v \<Rightarrow> Inr v)"

text \<open>Sequencing of two statements, the second skipped when the first throws.\<close>

definition and_then :: "js_error + 'a \<Rightarrow> ('a \<Rightarrow> js_error + 'b) \<Rightarrow> js_error + 'b" where
  "and_then m f = (case m of Inl e \<Rightarrow> Inl e | Inr v \<Rightarrow> f v)"


section \<open>JavaScript numbers and values\<close>

text \<open>
  A JavaScript number: a real (the arithmetic of the doubles is idealised, without
  rounding), an infinity, or NaN.  \<open>Math.max\<close> and \<open>Math.min\<close> return NaN as soon as
  one argument is NaN.
\<close>

datatype jsnum = Num real | PosInf | NegInf | NaN

fun Math_max :: "jsnum \<Rightarrow> jsnum \<Rightarrow> jsnum" where
  "Math_max NaN y = NaN"
| "Math_max x NaN = NaN"
| "Math_max PosInf y = PosInf"
| "Math_max x PosInf = PosInf"
| "Math_max NegInf y = y"
| "Math_max x NegInf = x"
| "Math_max (Num a) (Num b) = Num (max a b)"

fun Math_min :: "jsnum \<Rightarrow> jsnum \<Rightarrow> jsnum" where
  "Math_min NaN y = NaN"
| "Math_min x NaN = NaN"
| "Math_min NegInf y = NegInf"
| "Math_min x NegInf = NegInf"
| "Math_min PosInf y = y"
| "Math_min x PosInf = x"
| "Math_min (Num a) (Num b) = Num (min a b)"

text \<open>\<open>x * c\<close> for a finite number \<open>c\<close>.\<close>

fun js_times :: "jsnum \<Rightarrow> real \<Rightarrow> jsnum" where
  "js_times (Num a) c = Num (a * c)"
| "js_times NaN c = NaN"
| "js_times PosInf c = (if c > 0 then PosInf else if c < 0 then NegInf else NaN)"
| "js_times NegInf c = (if c > 0 then NegInf else if c < 0 then PosInf else NaN)"

fun js_plus :: "jsnum \<Rightarrow> jsnum \<Rightarrow> jsnum" where
  "js_plus (Num a) (Num b) = Num (a + b)"
| "js_plus NaN y = NaN"
| "js_plus x NaN = NaN"
| "js_plus PosInf NegInf = NaN"
| "js_plus NegInf PosInf = NaN"
| "js_plus PosInf y = PosInf"
| "js_plus x PosInf = PosInf"
| "js_plus NegInf y = NegInf"
| "js_plus x NegInf = NegInf"

text \<open>\<open>x / n\<close> for the length \<open>n\<close> of an array: \<open>0 / 0\<close> is NaN.\<close>

fun js_div_length :: "jsnum \<Rightarrow> nat \<Rightarrow> jsnum" where
  "js_div_length (Num a) n =
     (if n = 0 then (if a = 0 then NaN else if a > 0 then PosInf else NegInf)
      else Num (a / real n))"
| "js_div_length NaN n = NaN"
| "js_div_length PosInf n = PosInf"
| "js_div_length NegInf n = NegInf"

text \<open>\<open>x >= c\<close> for a finite number \<open>c\<close>: false when \<open>x\<close> is NaN.\<close>

fun js_ge :: "jsnum \<Rightarrow> real \<Rightarrow> bool" where
  "js_ge (Num a) c = (a \<ge> c)"
| "js_ge PosInf c = True"
| "js_ge NegInf c = False"
| "js_ge NaN c = False"

text \<open>
  A JavaScript value as \<open>JSON.parse\<close> builds it (\<open>JUndefined\<close> is what reading a
  missing property gives).  The pairs of a \<open>JObj\<close> are the object's own properties.
\<close>

datatype jsval =
    JUndefined
  | JNull
  | JBool bool
  | JNum jsnum
  | JStr string
  | JArr "jsval list"
  | JObj "(string \<times> jsval) list"

fun truthy :: "jsval \<Rightarrow> bool" where
  "truthy JUndefined = False"
| "truthy JNull = False"
| "truthy (JBool b) = b"
| "truthy (JNum n) = (n \<noteq> Num 0 \<and> n \<noteq> NaN)"
| "truthy (JStr s) = (s \<noteq> [])"
| "truthy (JArr xs) = True"
| "truthy (JObj kvs) = True"

text \<open>\<open>v || d\<close>\<close>

definition js_or :: "jsval \<Rightarrow> jsval \<Rightarrow> jsval" where
  "js_or v d = (if truthy v then v else d)"

text \<open>
  \<open>v.k\<close> for a value \<open>v\<close> that is neither \<open>null\<close> nor \<open>undefined\<close> (on those the
  access throws a TypeError, which the callers below model) and a name \<open>k\<close> that no
  prototype defines: an own property of an object, \<open>undefined\<close> otherwise.
\<close>

fun get_prop :: "jsval \<Rightarrow> string \<Rightarrow> jsval" where
  "get_prop (JObj kvs) k = (case map_of kvs k of None \<Rightarrow> JUndefined | Some v \<Rightarrow> v)"
| "get_prop v k = JUndefined"

subsection \<open>The numeric reading of a string\<close>

text \<open>
  \<open>StringToNumber\<close> of ECMAScript: white space is trimmed; the empty string is 0; a
  non-decimal literal (\<open>0x\<close>, \<open>0o\<close>, \<open>0b\<close>) carries no sign; a decimal literal is an
  optional sign followed by \<open>Infinity\<close> or by digits with an optional fraction and an
  optional exponent; every other string is NaN.
\<close>

definition is_js_space :: "char \<Rightarrow> bool" where
  "is_js_space c = ((of_char c :: nat) \<in> {9, 10, 11, 12, 13, 32, 160})"

definition trim :: "string \<Rightarrow> string" where
  "trim s = rev (dropWhile is_js_space (rev (dropWhile is_js_space s)))"

definition digit_value :: "char \<Rightarrow> nat option" where
  "digit_value c =
     (let n = (of_char c :: nat) in
      if 48 \<le> n \<and> n \<le> 57 then Some (n - 48)
      else if 97 \<le> n \<and> n \<le> 102 then Some (n - 87)
      else if 65 \<le> n \<and> n \<le> 70 then Some (n - 55)
      else None)"

definition is_digit_of :: "nat \<Rightarrow> char \<Rightarrow> bool" where
  "is_digit_of base c = (case digit_value c of None \<Rightarrow> False | Some d \<Rightarrow> d < base)"

definition digits_value :: "nat \<Rightarrow> string \<Rightarrow> nat" where
  "digits_value base ds =
     fold (\<lambda>c acc. acc * base + (case digit_value c of None \<Rightarrow> 0 | Some d \<Rightarrow> d)) ds 0"

definition radix_literal :: "nat \<Rightarrow> string \<Rightarrow> jsnum" where
  "radix_literal base ds =
     (if ds \<noteq> [] \<and> list_all (is_digit_of base) ds then Num (real (digits_value base ds))
      else NaN)"

text \<open>The exponent part after the \<open>e\<close>: an optional sign and at least one digit.\<close>

definition exponent_part :: "string \<Rightarrow> int option" where
  "exponent_part s =
     (let (neg, ds) =
            (case s of
               c # cs \<Rightarrow> if c = CHR ''-'' then (True, cs)
                          else if c = CHR ''+'' then (False, cs) else (False, s)
             | [] \<Rightarrow> (False, s))
      in if ds \<noteq> [] \<and> list_all (is_digit_of 10) ds
         then Some (if neg then - int (digits_value 10 ds) else int (digits_value 10 ds))
         else None)"

definition pow10 :: "int \<Rightarrow> real" where
  "pow10 e = (if e \<ge> 0 then 10 ^ nat e else 1 / 10 ^ nat (- e))"

text \<open>An unsigned decimal literal other than \<open>Infinity\<close>; \<open>None\<close> when it is not one.\<close>

definition unsigned_decimal :: "string \<Rightarrow> real option" where
  "unsigned_decimal s =
     (let ip = takeWhile (is_digit_of 10) s;
          r1 = dropWhile (is_digit_of 10) s;
          dot = (r1 \<noteq> [] \<and> hd r1 = CHR ''.'');
          fp = (if dot then takeWhile (is_digit_of 10) (tl r1) else []);
          r2 = (if dot then dropWhile (is_digit_of 10) (tl r1) else r1);
          mantissa = real (digits_value 10 ip) + real (digits_value 10 fp) / 10 ^ length fp
      in if ip = [] \<and> fp = [] then None
         else if r2 = [] then Some mantissa
         else if hd r2 = CHR ''e'' \<or> hd r2 = CHR ''E'' then
           (case exponent_part (tl r2) of
              None \<Rightarrow> None
            | Some e \<Rightarrow> Some (mantissa * pow10 e))
         else None)"

definition StringToNumber :: "string \<Rightarrow> jsnum" where
  "StringToNumber s =
     (let t = trim s in
      if t = [] then Num 0
      else if startsWith t ''0x'' \<or> startsWith t ''0X'' then radix_literal 16 (drop 2 t)
      else if startsWith t ''0o'' \<or> startsWith t ''0O'' then radix_literal 8 (drop 2 t)
      else if startsWith t ''0b'' \<or> startsWith t ''0B'' then radix_literal 2 (drop 2 t)
      else
        let neg = (hd t = CHR ''-'');
            u = (if hd t = CHR ''-'' \<or> hd t = CHR ''+'' then tl t else t)
        in if u = ''Infinity'' then (if neg then NegInf else PosInf)
           else (case unsigned_decimal u of
                   None \<Rightarrow> NaN
                 | Some x \<Rightarrow> Num (if neg then - x else x)))"

text \<open>
  The conversion of a value to a primitive, which \<open>ToNumber\<close> and a template
  literal start with.  On an object it calls the object's \<open>toString\<close> (for a number,
  after a \<open>valueOf\<close> that gives the object back); an object built by \<open>JSON.parse\<close>
  inherits the one of \<open>Object.prototype\<close>, unless it has an own property of that name,
  which is then no function, and the conversion throws a TypeError.  On an array it calls
  \<open>join\<close>, which converts every element.  \<open>converts v\<close> holds when the conversion
  returns.
\<close>

fun converts :: "jsval \<Rightarrow> bool" where
  "converts (JObj kvs) = (map_of kvs ''toString'' = None)"
| "converts (JArr xs) = list_all converts xs"
| "converts v = True"

text \<open>
  The number \<open>ToNumber\<close> gives when the conversion to a primitive returns.  An array
  is first turned into the string \<open>xs.join(",")\<close>: the empty array gives the empty
  string, a one-element array the string of its element (empty for \<open>null\<close> and
  \<open>undefined\<close>), and two or more elements a string with a comma, which is not a number.
  A plain object gives \<open>"[object Object]"\<close>.
\<close>

fun number_value :: "jsval \<Rightarrow> jsnum" where
  "number_value JUndefined = NaN"
| "number_value JNull = Num 0"
| "number_value (JBool b) = Num (if b then 1 else 0)"
| "number_value (JNum n) = n"
| "number_value (JStr s) = StringToNumber s"
| "number_value (JObj kvs) = NaN"
| "number_value (JArr []) = Num 0"
| "number_value (JArr [JUndefined]) = Num 0"
| "number_value (JArr [JNull]) = Num 0"
| "number_value (JArr [JBool b]) = NaN"
| "number_value (JArr [JNum n]) = n"
| "number_value (JArr [JStr s]) = StringToNumber s"
| "number_value (JArr [JObj kvs]) = NaN"
| "number_value (JArr [JArr ys]) = number_value (JArr ys)"
| "number_value (JArr (x # y # zs)) = NaN"

text \<open>
  \<open>ToNumber\<close>, which \<open>Math.max\<close>, \<open>Math.min\<close> and \<open>*\<close> apply to their operands: it
  throws when the conversion to a primitive does.
\<close>

definition ToNumber :: "jsval \<Rightarrow> js_error + jsnum" where
  "ToNumber v =
     (if converts v then Inr (number_value v)
      else Inl (Error ''Cannot convert object to primitive value''))"

text \<open>
  \<open>xs.includes(v)\<close> compares by SameValueZero: two primitives are the same when they are
  equal (NaN is the same as NaN); an object or an array is the same as itself only, and
  the values compared below come from different parses, so none of them is the other.
\<close>

definition is_primitive :: "jsval \<Rightarrow> bool" where
  "is_primitive v = (case v of JArr xs \<Rightarrow> False | JObj kvs \<Rightarrow> False | _ \<Rightarrow> True)"

definition array_includes :: "jsval list \<Rightarrow> jsval \<Rightarrow> bool" where
  "array_includes xs v = (is_primitive v \<and> v \<in> set xs)"

text \<open>
  What \<open>JSON.parse(JSON.stringify(v))\<close> gives for an element \<open>v\<close> of an array: \<open>undefined\<close>
  and the numbers that are not finite become \<open>null\<close>, and a property whose value is
  \<open>undefined\<close> is left out.
\<close>

fun json_value :: "jsval \<Rightarrow> jsval" where
  "json_value JUndefined = JNull"
| "json_value (JNum n) = (case n of Num x \<Rightarrow> JNum (Num x) | _ \<Rightarrow> JNull)"
| "json_value (JArr xs) = JArr (map json_value xs)"
| "json_value (JObj kvs) =
     JObj (map (\<lambda>kv. (fst kv, json_value (snd kv))) (filter (\<lambda>kv. snd kv \<noteq> JUndefined) kvs))"
| "json_value v = v"

text \<open>An evidence record as the adapters build it.\<close>

type_synonym evidence_record = "(jsval, jsval) ExternalFactCheckResult"


section \<open>The verdict and the stored rows\<close>

text \<open>
  \<open>interface FactCheckResult\<close>.  On the parsed path \<open>status\<close> and \<open>reasoning\<close> are
  whatever truthy value the model's JSON holds, and the sources start with the model's
  array, so the three are JavaScript values.
\<close>

record FactCheckResult =
  status :: jsval
  result_confidence :: jsnum
  result_sources :: "jsval list"
  reasoning :: jsval

text \<open>
  What a column declared \<open>text(...)\<close> holds after an insert: \<open>NULL\<close>, a text, the text
  the store makes of a number bound to the column, or a blob.  Whatever it holds reads
  back as \<open>null\<close>, a string or an array of numbers.
\<close>

datatype text_cell = NullCell | TextCell string | NumberText real | BlobCell "nat list"

text \<open>
  The three tables of \<open>db/schema.ts\<close>.  In \<open>fact_checks\<close> the status and the reasoning
  are plain text columns, the confidence is a \<open>real\<close> column that may be \<open>NULL\<close>, and the
  sources are a text column in JSON mode, which reads back as the value its JSON text
  parses to.  The rows of the other two tables keep the values they were inserted with.
  The time stamps are the text \<open>CURRENT_TIMESTAMP\<close> gives, \<open>YYYY-MM-DD HH:MM:SS\<close>.
\<close>

record FactCheckRow =
  fc_id :: nat
  claimText :: string
  verificationStatus :: text_cell
  confidenceScore :: "real option"
  sources :: "jsval list"
  fc_reasoning :: text_cell
  createdAt :: string
  updatedAt :: string

record WebpageAnalysisRow =
  wa_id :: nat
  wa_url :: string
  wa_title :: string
  wa_summary :: string
  claimsExtracted :: "jsval list"
  overallCredibility :: string
  factCheckResults :: "(string \<times> FactCheckResult) list"
  analyzedAt :: string

record DailyDigestRow =
  dd_id :: nat
  digestDate :: string
  trendingClaims :: jsval
  dd_summary :: string
  generatedAt :: string

record store =
  factChecks :: "FactCheckRow list"
  webpageAnalyses :: "WebpageAnalysisRow list"
  dailyDigests :: "DailyDigestRow list"


section \<open>The external collaborators\<close>

text \<open>
  What one \<open>fetch\<close> of an adapter can meet: the request fails (\<open>fetch\<close> rejects), the
  response is not OK, reading the body fails (\<open>response.json()\<close> or \<open>response.text()\<close>
  rejects), the body has a shape on which the adapter's property accesses throw (a JSON
  \<open>null\<close>, say), or a body of the type the adapter casts it to.
\<close>

datatype 'a fetched = FetchFails | NotOk | BodyFails | Unexpected | Body 'a

text \<open>
  The body of the Wikipedia reply, by the two values \<open>searchWikipedia\<close> reads and copies
  without a check: \<open>data.extract\<close> and \<open>data.content_urls?.desktop?.page\<close>, each
  \<open>undefined\<close> when absent.  (The cast to \<open>interface WikipediaResult\<close> checks nothing.)
\<close>

record WikipediaResult =
  wiki_extract :: jsval
  wiki_page :: jsval

text \<open>
  \<open>interface DuckDuckGoResult\<close>, the four fields read.  \<open>Answer\<close> and \<open>AbstractText\<close>
  are strings (on any other truthy value \<open>.trim()\<close> throws, which is the case
  \<open>Unexpected\<close>) and \<open>AbstractSource\<close> is the string the template literal makes of it,
  each empty when absent; \<open>AbstractURL\<close> is copied without a check.
\<close>

record DuckDuckGoResult =
  Answer :: string
  AbstractText :: string
  AbstractSource :: string
  AbstractURL :: jsval

text \<open>
  An \<open><item>\<close> of an RSS feed, as the regular expressions of the feed adapters read
  it: title, description and link, each empty when its expression does not match.
\<close>

record rss_item =
  item_title :: string
  item_description :: string
  item_link :: string

text \<open>
  A binding of the SPARQL result: the \<open>value\<close> of its three variables.  The label and the
  description are the strings the template literal makes of them, empty if absent; the
  item's value is copied without a check, \<open>undefined\<close> if absent.
\<close>

record wikidata_binding =
  itemLabel :: string
  binding_description :: string
  itemUri :: jsval

text \<open>
  The OpenSearch reply of Liquipedia: its parallel arrays, entry by entry.  The title is
  a string (\<open>title.toLowerCase()\<close> throws on anything else), the description is the
  string the template literal makes of it, and \<open>urls[i]\<close> is copied without a check.
\<close>

record opensearch_hit =
  hit_title :: string
  hit_description :: string
  hit_url :: jsval

record sports_event =
  strEvent :: string
  strHomeTeam :: string
  strAwayTeam :: string
  dateEvent :: string
  idEvent :: string

text \<open>An article of the PubMed summary; \<open>first_author\<close> is \<open>authors?.[0]?.name\<close>.\<close>

record pubmed_article =
  article_title :: string
  first_author :: "string option"
  pubdate :: string
  article_source :: string

text \<open>An \<open><entry>\<close> of the EDGAR feed, and one of the arXiv feed, as their expressions read them.\<close>

record sec_entry =
  sec_title :: string
  sec_summary :: string
  sec_link :: string

record arxiv_entry =
  arxiv_title :: string
  arxiv_summary :: string
  arxiv_authors :: "string list"
  arxivId :: string

text \<open>
  A prompt sent to the generative model, by the values that fill the holes of its
  template.  (The text is a function of them, so a model that answers by the text is a
  special case of one that answers by these values.)
\<close>

datatype prompt =
    VerifyPrompt string "string option" "evidence_record list" ConflictAnalysis
  | ExtractPrompt string string "string list option"
  | AnalysisSummaryPrompt string nat string jsnum
  | TrendingPrompt "FactCheckRow list"
  | DigestSummaryPrompt string "FactCheckRow list" nat

text \<open>
  What \<open>callCohere\<close> meets: it throws (the request fails, the response is not OK, the
  reply has no \<open>generations\<close>), or it returns a text; with the text comes what
  \<open>JSON.parse\<close> makes of it, \<open>None\<close> when \<open>JSON.parse\<close> throws.
\<close>

datatype model_reply = Throws js_error | Text string "jsval option"

text \<open>
  What \<open>scrapeWebpage\<close> meets inside its \<open>try\<close>: an error, or a page, given by the title
  its expression reads (\<open>None\<close> without a match) and the text left of the HTML.
\<close>

datatype page_fetch = PageFails js_error | Page "string option" string

text \<open>
  The store is an external system too.  What it does with a JavaScript value bound to a
  plain text column is its own, not this program's: \<open>d1_text\<close> gives the error it
  raises, or what the column holds afterwards.
\<close>

record external_world =
  wikipedia_api :: "string \<Rightarrow> WikipediaResult fetched"
  duckduckgo_api :: "string \<Rightarrow> DuckDuckGoResult fetched"
  snopes_feed :: "rss_item list fetched"
  wikidata_api :: "string \<Rightarrow> wikidata_binding list fetched"
  liquipedia_api :: "string \<Rightarrow> string \<Rightarrow> opensearch_hit list fetched"
  espn_feed :: "rss_item list fetched"
  sportsdb_api :: "string \<Rightarrow> sports_event list fetched"
  pubmed_search :: "string \<Rightarrow> string list fetched"
  pubmed_summary :: "string \<Rightarrow> pubmed_article option fetched"
  who_feed :: "rss_item list fetched"
  sec_edgar :: "string \<Rightarrow> sec_entry list fetched"
  arxiv_api :: "string \<Rightarrow> arxiv_entry list fetched"
  cohere :: "prompt \<Rightarrow> model_reply"
  webpage :: "string \<Rightarrow> page_fetch"
  d1_text :: "jsval \<Rightarrow> js_error + text_cell"

text \<open>The external calls a request makes, in order.\<close>

datatype event = AdapterQuery string string | ModelCall prompt | PageFetch string


section \<open>More string operations\<close>

text \<open>\<open>s.split(c)\<close> for a one-character separator: the empty string gives one empty word.\<close>

fun split_on :: "char \<Rightarrow> string \<Rightarrow> string list" where
  "split_on c [] = [[]]"
| "split_on c (x # xs) =
     (if x = c then [] # split_on c xs
      else (case split_on c xs of w # ws \<Rightarrow> (x # w) # ws | [] \<Rightarrow> [[x]]))"

text \<open>
  \<open>s.replace(/<[^>]*>/g, '')\<close>: a \<open><\<close> is removed together with everything up to
  the next \<open>>\<close>; a \<open><\<close> with no \<open>>\<close> after it stays.
\<close>

function strip_tags :: "string \<Rightarrow> string" where
  "strip_tags [] = []"
| "strip_tags (c # cs) =
     (if c = CHR ''<'' \<and> CHR ''>'' \<in> set cs
      then strip_tags (tl (dropWhile (\<lambda>x. x \<noteq> CHR ''>'') cs))
      else c # strip_tags cs)"
  by pat_completeness auto
termination
proof (relation "measure length")
  show "wf (measure length)" by simp
next
  fix c :: char and cs :: string
  have "length (tl (dropWhile (\<lambda>x. x \<noteq> CHR ''>'') cs)) \<le> length cs"
    using length_dropWhile_le [of "\<lambda>x. x \<noteq> CHR ''>''" cs] by simp
  then show "(tl (dropWhile (\<lambda>x. x \<noteq> CHR ''>'') cs), c # cs) \<in> measure length"
    by simp
next
  fix c :: char and cs :: string
  show "(cs, c # cs) \<in> measure length" by simp
qed

text \<open>\<open>\w\<close> of a regular expression: an ASCII letter, a digit or the underscore.\<close>

definition is_word_char :: "char \<Rightarrow> bool" where
  "is_word_char c =
     (let n = (of_char c :: nat) in
      (48 \<le> n \<and> n \<le> 57) \<or> (65 \<le> n \<and> n \<le> 90) \<or> (97 \<le> n \<and> n \<le> 122) \<or> n = 95)"

text \<open>
  \<open>encodeURIComponent\<close>: letters, digits and \<open>- _ . ! ~ * ' ( )\<close> stay; every other
  character becomes the \<open>%XX\<close> of each byte of its UTF-8 encoding (two bytes from 128 on).
\<close>

definition hex_digit :: "nat \<Rightarrow> char" where
  "hex_digit d = ''0123456789ABCDEF'' ! (d mod 16)"

definition percent_byte :: "nat \<Rightarrow> string" where
  "percent_byte b = [CHR ''%'', hex_digit (b div 16), hex_digit b]"

definition is_uri_unreserved :: "char \<Rightarrow> bool" where
  "is_uri_unreserved c = ((is_word_char c \<and> c \<noteq> CHR ''_'') \<or> c \<in> set ''-_.!~*'()'')"

definition encodeURIComponent :: "string \<Rightarrow> string" where
  "encodeURIComponent s =
     concat (map (\<lambda>c.
       let n = (of_char c :: nat) in
       if is_uri_unreserved c then [c]
       else if n < 128 then percent_byte n
       else percent_byte (192 + n div 64) @ percent_byte (128 + n mod 64)) s)"


section \<open>Source adapters\<close>

text \<open>
  The part every adapter shares: \<open>await fetch(...)\<close>, \<open>if (!response.ok) return null\<close>,
  then the body.  A failure is a thrown error, caught by the adapter's own \<open>catch\<close>.
\<close>

definition with_body ::
  "'a fetched \<Rightarrow> ('a \<Rightarrow> js_error + evidence_record option)
     \<Rightarrow> js_error + evidence_record option" where
  "with_body response k =
     (case response of
        FetchFails \<Rightarrow> Inl (Error ''fetch failed'')
      | NotOk \<Rightarrow> Inr None
      | BodyFails \<Rightarrow> Inl (Error ''the body cannot be read'')
      | Unexpected \<Rightarrow> Inl (Error ''Cannot read properties'')
      | Body data \<Rightarrow> k data)"

text \<open>\<open>catch (error) { console.error(...); return null; }\<close>\<close>

definition return_null :: "js_error \<Rightarrow> js_error + evidence_record option" where
  "return_null error = Inr None"

definition searchWikipedia ::
  "external_world \<Rightarrow> string \<Rightarrow> js_error + evidence_record option" where
  "searchWikipedia env query =
     try_catch
       (let cleanQuery = trim (filter (\<lambda>c. is_word_char c \<or> is_js_space c) query);
            encodedQuery = encodeURIComponent cleanQuery
        in with_body (wikipedia_api env encodedQuery) (\<lambda>data.
             Inr (Some \<lparr>source = ''Wikipedia'', verdict = None,
                        summary = js_or (wiki_extract data) (JStr ''No summary available''),
                        url = js_or (wiki_page data)
                                (JStr (''https://en.wikipedia.org/wiki/'' @ encodedQuery)),
                        confidence = 0.8\<rparr>)))
       return_null"

definition searchDuckDuckGo ::
  "external_world \<Rightarrow> string \<Rightarrow> js_error + evidence_record option" where
  "searchDuckDuckGo env query =
     try_catch
       (let encodedQuery = encodeURIComponent query
        in with_body (duckduckgo_api env encodedQuery) (\<lambda>data.
             if Answer data \<noteq> [] \<and> trim (Answer data) \<noteq> [] then
               Inr (Some \<lparr>source = ''DuckDuckGo Instant Answer'', verdict = None,
                          summary = JStr (Answer data),
                          url = js_or (AbstractURL data) (JStr ''https://duckduckgo.com''),
                          confidence = 0.7\<rparr>)
             else if AbstractText data \<noteq> [] \<and> trim (AbstractText data) \<noteq> [] then
               Inr (Some \<lparr>source = ''DuckDuckGo ('' @
                                   (if AbstractSource data \<noteq> [] then AbstractSource data
                                    else ''Various Sources'') @ '')'',
                          verdict = None,
                          summary = JStr (AbstractText data),
                          url = js_or (AbstractURL data) (JStr ''https://duckduckgo.com''),
                          confidence = 0.6\<rparr>)
             else Inr None))
       return_null"

text \<open>
  The matching of the feed adapters: the words of the query longer than 3 characters,
  and an item matches when at least \<open>min(2, number of words)\<close> of them occur in its
  title and description.
\<close>

definition queryWords :: "string \<Rightarrow> string list" where
  "queryWords query = filter (\<lambda>word. length word > 3) (split_on CHR '' '' (toLowerCase query))"

definition item_matches :: "string list \<Rightarrow> rss_item \<Rightarrow> bool" where
  "item_matches words item =
     (let content = toLowerCase (item_title item @ '' '' @ item_description item);
          matchCount = length (filter (\<lambda>word. str_includes content word) words)
      in matchCount \<ge> min 2 (length words))"

definition snopes_verdict :: "string \<Rightarrow> string" where
  "snopes_verdict description =
     (let d = toLowerCase description in
      if str_includes d ''false'' \<or> str_includes d ''fake'' then ''False''
      else if str_includes d ''true'' \<or> str_includes d ''correct'' then ''True''
      else if str_includes d ''mixture'' \<or> str_includes d ''mixed'' then ''Mixed''
      else [])"

definition searchSnopes ::
  "external_world \<Rightarrow> string \<Rightarrow> js_error + evidence_record option" where
  "searchSnopes env query =
     try_catch
       (with_body (snopes_feed env) (\<lambda>items.
          case find (item_matches (queryWords query)) (take 10 items) of
            None \<Rightarrow> Inr None
          | Some item \<Rightarrow>
              let v = snopes_verdict (item_description item) in
              Inr (Some \<lparr>source = ''Snopes'',
                         verdict = (if v \<noteq> [] then Some v else None),
                         summary = JStr (take 300 (strip_tags (item_description item)) @ ''...''),
                         url = JStr (item_link item),
                         confidence = 0.9\<rparr>)))
       return_null"

definition queryWikidata ::
  "external_world \<Rightarrow> string \<Rightarrow> js_error + evidence_record option" where
  "queryWikidata env query =
     try_catch
       (with_body (wikidata_api env (take 50 (filter (\<lambda>c. c \<noteq> CHR 0x22) query))) (\<lambda>bindings.
          case bindings of
            [] \<Rightarrow> Inr None
          | result # _ \<Rightarrow>
              Inr (Some \<lparr>source = ''Wikidata'', verdict = None,
                         summary = JStr (itemLabel result @ '': '' @ binding_description result),
                         url = js_or (itemUri result) (JStr []),
                         confidence = 0.8\<rparr>)))
       return_null"

definition liquipedia_game :: "string \<Rightarrow> string" where
  "liquipedia_game lowerQuery =
     (if str_includes lowerQuery ''cs:go'' \<or> str_includes lowerQuery ''counter-strike'' \<or>
         str_includes lowerQuery ''stockholm major'' then ''counterstrike''
      else if str_includes lowerQuery ''dota'' \<or> str_includes lowerQuery ''international''
        then ''dota2''
      else if str_includes lowerQuery ''league'' \<or> str_includes lowerQuery ''worlds'' \<or>
         str_includes lowerQuery ''lol'' then ''leagueoflegends''
      else if str_includes lowerQuery ''valorant'' then ''valorant''
      else [])"

definition tournament_title :: "string \<Rightarrow> bool" where
  "tournament_title title =
     (let t = toLowerCase title in
      str_includes t ''major'' \<or> str_includes t ''championship'' \<or>
      str_includes t ''tournament'' \<or> str_includes t ''2021'')"

definition searchLiquipedia ::
  "external_world \<Rightarrow> string \<Rightarrow> js_error + evidence_record option" where
  "searchLiquipedia env query =
     try_catch
       (let game = liquipedia_game (toLowerCase query) in
        if game = [] then Inr None
        else with_body (liquipedia_api env game (encodeURIComponent query)) (\<lambda>hits.
          case find (\<lambda>h. tournament_title (hit_title h)) hits of
            None \<Rightarrow> Inr None
          | Some h \<Rightarrow>
              Inr (Some \<lparr>source = ''Liquipedia ('' @ game @ '')'', verdict = None,
                         summary = JStr (hit_title h @ '': '' @ hit_description h),
                         url = hit_url h,
                         confidence = 0.85\<rparr>)))
       return_null"

definition searchESPN ::
  "external_world \<Rightarrow> string \<Rightarrow> js_error + evidence_record option" where
  "searchESPN env query =
     try_catch
       (with_body (espn_feed env) (\<lambda>items.
          case find (item_matches (queryWords query)) (take 10 items) of
            None \<Rightarrow> Inr None
          | Some item \<Rightarrow>
              Inr (Some \<lparr>source = ''ESPN Sports News'', verdict = None,
                         summary = JStr (item_title item @ '': '' @
                           take 200 (strip_tags (item_description item)) @ ''...''),
                         url = JStr (item_link item),
                         confidence = 0.75\<rparr>)))
       return_null"

definition searchSportsDB ::
  "external_world \<Rightarrow> string \<Rightarrow> js_error + evidence_record option" where
  "searchSportsDB env query =
     try_catch
       (with_body (sportsdb_api env (encodeURIComponent query)) (\<lambda>events.
          case events of
            [] \<Rightarrow> Inr None
          | event # _ \<Rightarrow>
              Inr (Some \<lparr>source = ''TheSportsDB'', verdict = None,
                         summary = JStr (strEvent event @ '': '' @ strHomeTeam event @
                           '' vs '' @ strAwayTeam event @ '' on '' @ dateEvent event),
                         url = JStr (''https://www.thesportsdb.com/event/'' @ idEvent event),
                         confidence = 0.8\<rparr>)))
       return_null"

definition searchPubMed ::
  "external_world \<Rightarrow> string \<Rightarrow> js_error + evidence_record option" where
  "searchPubMed env query =
     try_catch
       (with_body (pubmed_search env (encodeURIComponent query)) (\<lambda>pmids.
          case pmids of
            [] \<Rightarrow> Inr None
          | pmid # _ \<Rightarrow>
              with_body (pubmed_summary env pmid) (\<lambda>found.
                case found of
                  None \<Rightarrow> Inr None
                | Some article \<Rightarrow>
                    Inr (Some \<lparr>source = ''PubMed/NCBI'', verdict = None,
                               summary = JStr (article_title article @ '' - '' @
                                 (case first_author article of
                                    Some a \<Rightarrow> if a \<noteq> [] then a else ''Unknown author''
                                  | None \<Rightarrow> ''Unknown author'') @
                                 '' et al. ('' @ pubdate article @ '') - '' @
                                 article_source article),
                               url = JStr (''https://pubmed.ncbi.nlm.nih.gov/'' @ pmid @ ''/''),
                               confidence = 0.9\<rparr>))))
       return_null"

definition searchWHO ::
  "external_world \<Rightarrow> string \<Rightarrow> js_error + evidence_record option" where
  "searchWHO env query =
     try_catch
       (with_body (who_feed env) (\<lambda>items.
          case find (item_matches (queryWords query)) (take 10 items) of
            None \<Rightarrow> Inr None
          | Some item \<Rightarrow>
              Inr (Some \<lparr>source = ''World Health Organization (WHO)'', verdict = None,
                         summary = JStr (item_title item @ '': '' @
                           take 200 (strip_tags (item_description item)) @ ''...''),
                         url = JStr (item_link item),
                         confidence = 0.95\<rparr>)))
       return_null"

definition searchSEC ::
  "external_world \<Rightarrow> string \<Rightarrow> js_error + evidence_record option" where
  "searchSEC env query =
     try_catch
       (with_body (sec_edgar env (encodeURIComponent query)) (\<lambda>entries.
          case entries of
            [] \<Rightarrow> Inr None
          | entry # _ \<Rightarrow>
              Inr (Some \<lparr>source = ''SEC EDGAR Database'', verdict = None,
                         summary = JStr (sec_title entry @ '': '' @
                           take 200 (strip_tags (sec_summary entry)) @ ''...''),
                         url = JStr (if startsWith (sec_link entry) ''http'' then sec_link entry
                                     else ''https://www.sec.gov'' @ sec_link entry),
                         confidence = 0.9\<rparr>)))
       return_null"

definition searchArXiv ::
  "external_world \<Rightarrow> string \<Rightarrow> js_error + evidence_record option" where
  "searchArXiv env query =
     try_catch
       (with_body (arxiv_api env (encodeURIComponent query)) (\<lambda>entries.
          case entries of
            [] \<Rightarrow> Inr None
          | entry # _ \<Rightarrow>
              Inr (Some \<lparr>source = ''arXiv Preprint Server'', verdict = None,
                         summary = JStr (trim (arxiv_title entry) @ '' - '' @
                           join '', '' (take 3 (arxiv_authors entry)) @ '' - '' @
                           take 200 (trim (arxiv_summary entry)) @ ''...''),
                         url = JStr (''https://arxiv.org/abs/'' @ arxivId entry),
                         confidence = 0.8\<rparr>)))
       return_null"


section \<open>The claim verifier\<close>

subsection \<open>Claim type and evidence collection\<close>

definition isEsports :: "string \<Rightarrow> bool" where
  "isEsports lowerClaim =
     (str_includes lowerClaim ''major'' \<or> str_includes lowerClaim ''tournament'' \<or>
      str_includes lowerClaim ''cs:go'' \<or> str_includes lowerClaim ''dota'' \<or>
      str_includes lowerClaim ''league'' \<or> str_includes lowerClaim ''valorant'' \<or>
      str_includes lowerClaim ''esports'' \<or> str_includes lowerClaim ''gaming'')"

definition isSports :: "string \<Rightarrow> bool" where
  "isSports lowerClaim =
     (str_includes lowerClaim ''championship'' \<or> str_includes lowerClaim ''world cup'' \<or>
      str_includes lowerClaim ''olympics'' \<or> str_includes lowerClaim ''nfl'' \<or>
      str_includes lowerClaim ''nba'' \<or> str_includes lowerClaim ''football'' \<or>
      str_includes lowerClaim ''soccer'' \<or> str_includes lowerClaim ''baseball'')"

definition isMedical :: "string \<Rightarrow> bool" where
  "isMedical lowerClaim =
     (str_includes lowerClaim ''health'' \<or> str_includes lowerClaim ''medicine'' \<or>
      str_includes lowerClaim ''disease'' \<or> str_includes lowerClaim ''vaccine'' \<or>
      str_includes lowerClaim ''drug'' \<or> str_includes lowerClaim ''treatment'' \<or>
      str_includes lowerClaim ''vitamin'' \<or> str_includes lowerClaim ''cancer'' \<or>
      str_includes lowerClaim ''covid'' \<or> str_includes lowerClaim ''medical'')"

definition isFinancial :: "string \<Rightarrow> bool" where
  "isFinancial lowerClaim =
     (str_includes lowerClaim ''stock'' \<or> str_includes lowerClaim ''market'' \<or>
      str_includes lowerClaim ''sec'' \<or> str_includes lowerClaim ''earnings'' \<or>
      str_includes lowerClaim ''revenue'' \<or> str_includes lowerClaim ''profit'' \<or>
      str_includes lowerClaim ''company'' \<or> str_includes lowerClaim ''financial'')"

definition isScientific :: "string \<Rightarrow> bool" where
  "isScientific lowerClaim =
     (str_includes lowerClaim ''research'' \<or> str_includes lowerClaim ''study'' \<or>
      str_includes lowerClaim ''science'' \<or> str_includes lowerClaim ''experiment'' \<or>
      str_includes lowerClaim ''theory'' \<or> str_includes lowerClaim ''discovery'' \<or>
      str_includes lowerClaim ''climate'' \<or> str_includes lowerClaim ''physics'')"

text \<open>
  The state of the collecting \<open>try\<close> block: \<open>externalResults\<close> so far, the adapters
  queried so far, and whether an adapter has thrown (the block is then left for its
  \<open>catch\<close>, which only logs).
\<close>

record collecting =
  externalResults :: "evidence_record list"
  queried :: "event list"
  left :: bool

text \<open>
  One \<open>const r = await search(claim); if (r) externalResults.push(r);\<close>, run when the
  block has not been left and the claim type asks for the adapter.
\<close>

definition try_source ::
  "bool \<Rightarrow> string \<Rightarrow> string \<Rightarrow> js_error + evidence_record option
     \<Rightarrow> collecting \<Rightarrow> collecting" where
  "try_source wanted name claim outcome st =
     (if left st \<or> \<not> wanted then st
      else case outcome of
             Inl error \<Rightarrow> st\<lparr>queried := queried st @ [AdapterQuery name claim], left := True\<rparr>
           | Inr None \<Rightarrow> st\<lparr>queried := queried st @ [AdapterQuery name claim]\<rparr>
           | Inr (Some r) \<Rightarrow>
               st\<lparr>externalResults := externalResults st @ [r],
                  queried := queried st @ [AdapterQuery name claim]\<rparr>)"

definition collectEvidence :: "external_world \<Rightarrow> string \<Rightarrow> collecting" where
  "collectEvidence env claim =
     (let lowerClaim = toLowerCase claim;
          s0 = \<lparr>externalResults = [], queried = [], left = False\<rparr>;
          s1 = try_source True ''Wikipedia'' claim (searchWikipedia env claim) s0;
          s2 = try_source True ''DuckDuckGo'' claim (searchDuckDuckGo env claim) s1;
          s3 = try_source True ''Snopes'' claim (searchSnopes env claim) s2;
          s4 = try_source (isEsports lowerClaim) ''Liquipedia'' claim
                 (searchLiquipedia env claim) s3;
          s5 = try_source (isSports lowerClaim) ''ESPN'' claim (searchESPN env claim) s4;
          s6 = try_source (isSports lowerClaim) ''TheSportsDB'' claim
                 (searchSportsDB env claim) s5;
          s7 = try_source (isMedical lowerClaim) ''PubMed'' claim (searchPubMed env claim) s6;
          s8 = try_source (isMedical lowerClaim) ''WHO'' claim (searchWHO env claim) s7;
          s9 = try_source (isFinancial lowerClaim) ''SEC'' claim (searchSEC env claim) s8;
          s10 = try_source (isScientific lowerClaim) ''arXiv'' claim
                  (searchArXiv env claim) s9
      in try_source True ''Wikidata'' claim (queryWikidata env claim) s10)"

subsection \<open>Before the model is called\<close>

text \<open>
  \<open>const conflictAnalysis = analyzeSourceConflicts(externalResults)\<close>, which stands
  outside the \<open>try\<close> blocks of \<open>verifyClaim\<close>.  With two records or more the analyzer
  starts with \<open>results.map(r => r.summary.toLowerCase())\<close>, which throws a TypeError on
  a summary that is no string; with fewer it returns before it reads any summary.
  When no summary is in the way, the records are of the type the analyzer is written for.
\<close>

definition is_string :: "jsval \<Rightarrow> bool" where
  "is_string v = (case v of JStr s \<Rightarrow> True | _ \<Rightarrow> False)"

definition as_declared :: "evidence_record \<Rightarrow> (string, jsval) ExternalFactCheckResult" where
  "as_declared r =
     \<lparr>source = source r, verdict = verdict r,
      summary = (case summary r of JStr s \<Rightarrow> s | _ \<Rightarrow> []),
      url = url r, confidence = confidence r\<rparr>"

definition conflictAnalysis_of :: "evidence_record list \<Rightarrow> js_error + ConflictAnalysis" where
  "conflictAnalysis_of results =
     (if 2 \<le> length results \<and> \<not> list_all (\<lambda>r. is_string (summary r)) results
      then Inl (Error ''r.summary.toLowerCase is not a function'')
      else Inr (analyzeSourceConflicts (map as_declared results)))"

text \<open>
  The prompt is built outside the \<open>try\<close> blocks as well.  For every record the template
  literals \<open>${result.summary}\<close> and \<open>${result.url}\<close> convert the two values to
  strings, which throws a TypeError on a value that does not convert.
\<close>

definition build_prompt ::
  "string \<Rightarrow> string option \<Rightarrow> evidence_record list \<Rightarrow> ConflictAnalysis
     \<Rightarrow> js_error + prompt" where
  "build_prompt claim context results conflictAnalysis =
     (if list_all (\<lambda>r. converts (summary r) \<and> converts (url r)) results
      then Inr (VerifyPrompt claim context results conflictAnalysis)
      else Inl (Error ''Cannot convert object to primitive value''))"

subsection \<open>From the model's reply to the verdict\<close>

text \<open>
  \<open>externalResults.forEach(result => { if (!allSources.includes(result.url))
  allSources.push(result.url); })\<close>
\<close>

definition add_external_sources :: "jsval list \<Rightarrow> evidence_record list \<Rightarrow> jsval list" where
  "add_external_sources allSources results =
     fold (\<lambda>result acc. if array_includes acc (url result) then acc else acc @ [url result])
       results allSources"

definition avgExternalConfidence :: "('s, 'u) ExternalFactCheckResult list \<Rightarrow> real" where
  "avgExternalConfidence results =
     fold (\<lambda>r sum. sum + confidence r) results 0 / real (length results)"

definition hasSpecializedSource :: "('s, 'u) ExternalFactCheckResult list \<Rightarrow> bool" where
  "hasSpecializedSource results =
     list_ex (\<lambda>r.
       str_includes (source r) ''Liquipedia'' \<or> str_includes (source r) ''ESPN'' \<or>
       str_includes (source r) ''TheSportsDB'' \<or> str_includes (source r) ''PubMed'' \<or>
       str_includes (source r) ''WHO'' \<or> str_includes (source r) ''SEC EDGAR'' \<or>
       str_includes (source r) ''arXiv'') results"

text \<open>
  The confidence of the parsed path, from \<open>let adjustedConfidence = parsed.confidence ||
  0\<close> to the clamp.  Every use of \<open>adjustedConfidence\<close> (\<open>Math.max\<close>, \<open>Math.min\<close>,
  \<open>*\<close>) reads it through \<open>ToNumber\<close>, and on every path the clamp is one of them: the
  conversion is made first, and when it throws the computation throws.
\<close>

definition adjustedConfidence ::
  "('s, 'u) ExternalFactCheckResult list \<Rightarrow> ConflictAnalysis \<Rightarrow> jsval \<Rightarrow> js_error + jsnum" where
  "adjustedConfidence results conflictAnalysis reported =
     and_then (ToNumber (js_or reported (JNum (Num 0)))) (\<lambda>c0.
       let c1 = (if length results > 0
                 then Math_max c0 (Num (avgExternalConfidence results * 0.8)) else c0);
           c2 = (if hasConflicts conflictAnalysis
                 then Math_max (Num 0.3) (js_times c1 0.7) else c1);
           c3 = (if hasSpecializedSource results \<and> \<not> hasConflicts conflictAnalysis
                 then Math_max c2 (Num 0.85) else c2);
           snopesResult = find (\<lambda>r. source r = ''Snopes'' \<and> has_verdict r) results;
           c4 = (if (case snopesResult of None \<Rightarrow> False | Some s \<Rightarrow> has_verdict s) \<and>
                    \<not> hasConflicts conflictAnalysis
                 then Math_max c3 (Num 0.9) else c3)
       in Inr (Math_max (Num 0) (Math_min (Num 1) c4)))"

text \<open>
  The body of the inner \<open>try\<close> after \<open>JSON.parse\<close>.  Reading \<open>parsed.sources\<close> throws
  when \<open>parsed\<close> is \<open>null\<close>; on every other value the four reads succeed.
\<close>

definition from_parsed ::
  "evidence_record list \<Rightarrow> ConflictAnalysis \<Rightarrow> jsval \<Rightarrow> js_error + FactCheckResult" where
  "from_parsed results conflictAnalysis parsed =
     (if parsed = JNull \<or> parsed = JUndefined
      then Inl (Error ''Cannot read properties of null (reading 'sources')'')
      else
        let allSources =
              add_external_sources
                (case get_prop parsed ''sources'' of JArr xs \<Rightarrow> xs | _ \<Rightarrow> []) results
        in and_then
             (adjustedConfidence results conflictAnalysis (get_prop parsed ''confidence''))
             (\<lambda>c. Inr \<lparr>status = js_or (get_prop parsed ''status'') (JStr ''unverified''),
                        result_confidence = c,
                        result_sources = allSources,
                        reasoning = js_or (get_prop parsed ''reasoning'')
                                      (JStr ''No reasoning provided'')\<rparr>))"

definition callCohere :: "external_world \<Rightarrow> prompt \<Rightarrow> js_error + string \<times> jsval option" where
  "callCohere env p = (case cohere env p of Throws e \<Rightarrow> Inl e | Text t parsed \<Rightarrow> Inr (t, parsed))"

definition JSON_parse :: "jsval option \<Rightarrow> js_error + jsval" where
  "JSON_parse parsed =
     (case parsed of None \<Rightarrow> Inl (Error ''Unexpected token'') | Some v \<Rightarrow> Inr v)"

text \<open>The two nested \<open>try\<close> blocks of \<open>verifyClaim\<close>, from the model call on.\<close>

definition model_verdict ::
  "external_world \<Rightarrow> evidence_record list \<Rightarrow> ConflictAnalysis \<Rightarrow> prompt
     \<Rightarrow> js_error + FactCheckResult" where
  "model_verdict env results conflictAnalysis p =
     try_catch
       (and_then (callCohere env p) (\<lambda>(response, parsed).
          try_catch
            (and_then (JSON_parse parsed) (from_parsed results conflictAnalysis))
            (\<lambda>error.
               Inr \<lparr>status = JStr ''unverified'',
                    result_confidence = Num (if length results > 0 then 0.6 else 0.3),
                    result_sources = map url results,
                    reasoning = JStr (if response \<noteq> [] then response
                                      else ''Unable to verify claim'')\<rparr>)))
       (\<lambda>error.
          Inr \<lparr>status = JStr ''unverified'',
               result_confidence = Num (if length results > 0 then 0.4 else 0),
               result_sources = map url results,
               reasoning = JStr (''Error during verification: '' @ error_message error)\<rparr>)"

text \<open>
  \<open>verifyClaim\<close>: the verdict, or the error it throws, and the external calls it made.
  An error of the conflict analysis or of the prompt building leaves the function before
  the model is called; everything after is inside the two \<open>try\<close> blocks.
\<close>

definition verifyClaim ::
  "external_world \<Rightarrow> string \<Rightarrow> string option \<Rightarrow> (js_error + FactCheckResult) \<times> event list" where
  "verifyClaim env claim context =
     (let collected = collectEvidence env claim;
          results = externalResults collected
      in case and_then (conflictAnalysis_of results) (\<lambda>conflictAnalysis.
                and_then (build_prompt claim context results conflictAnalysis) (\<lambda>p.
                  Inr (conflictAnalysis, p))) of
           Inl error \<Rightarrow> (Inl error, queried collected)
         | Inr (conflictAnalysis, p) \<Rightarrow>
             (model_verdict env results conflictAnalysis p, queried collected @ [ModelCall p]))"


section \<open>The store\<close>

text \<open>
  The store is the sequence of rows of each table, in insertion order.  Text columns
  compare as SQLite compares them, byte by byte, which on \<^typ>\<open>string\<close> is the
  lexicographic order.  \<open>orderBy(desc(column))\<close> lists the greatest value first; SQL
  leaves the order among equal values open, and here rows inserted later come first.
\<close>

definition orderBy_desc :: "('a \<Rightarrow> string) \<Rightarrow> 'a list \<Rightarrow> 'a list" where
  "orderBy_desc column rows = rev (sort_key column rows)"

text \<open>
  The insert into \<open>fact_checks\<close>.  The claim is a string.  The status and the
  reasoning are bound to plain text columns as the JavaScript values they are.  D1 binds
  strings, numbers, booleans, \<open>null\<close> and byte arrays; it refuses \<open>undefined\<close>, an
  object, and an array that holds anything but numbers, with a \<open>D1_TYPE_ERROR\<close> (whose
  message, which goes on with the type and the value, is cut short here).  What becomes
  of the other values is left to the store (\<open>d1_text\<close>).  The status column is declared
  \<open>notNull()\<close>.  The confidence is a number, and one that is not finite (NaN) is stored
  as \<open>NULL\<close>.  The sources are stored as their JSON text.  When the insert throws, no row
  is added.
\<close>

definition refused :: "jsval \<Rightarrow> bool" where
  "refused v =
     (case v of
        JUndefined \<Rightarrow> True
      | JObj kvs \<Rightarrow> True
      | JArr xs \<Rightarrow> \<not> list_all (\<lambda>x. case x of JNum n \<Rightarrow> True | _ \<Rightarrow> False) xs
      | _ \<Rightarrow> False)"

definition bind_text :: "external_world \<Rightarrow> jsval \<Rightarrow> js_error + text_cell" where
  "bind_text env v = (if refused v then Inl (Error ''D1_TYPE_ERROR'') else d1_text env v)"

definition stored_confidence :: "jsnum \<Rightarrow> real option" where
  "stored_confidence c = (case c of Num x \<Rightarrow> Some x | _ \<Rightarrow> None)"

definition fact_check_row ::
  "external_world \<Rightarrow> string \<Rightarrow> string \<Rightarrow> FactCheckResult \<Rightarrow> nat
     \<Rightarrow> js_error + FactCheckRow" where
  "fact_check_row env now claim result n =
     and_then (bind_text env (status result)) (\<lambda>statusCell.
       and_then (bind_text env (reasoning result)) (\<lambda>reasoningCell.
         if statusCell = NullCell
         then Inl (Error ''NOT NULL constraint failed: fact_checks.verification_status'')
         else Inr \<lparr>fc_id = n, claimText = claim, verificationStatus = statusCell,
                   confidenceScore = stored_confidence (result_confidence result),
                   sources = map json_value (result_sources result),
                   fc_reasoning = reasoningCell, createdAt = now, updatedAt = now\<rparr>))"

definition insert_factCheck ::
  "external_world \<Rightarrow> string \<Rightarrow> string \<Rightarrow> FactCheckResult \<Rightarrow> store \<Rightarrow> js_error + store" where
  "insert_factCheck env now claim result db =
     and_then (fact_check_row env now claim result (Suc (length (factChecks db)))) (\<lambda>row.
       Inr (db\<lparr>factChecks := factChecks db @ [row]\<rparr>))"

text \<open>
  The inserts into the other two tables: every value bound is a string or a JSON text,
  and the insert fails on the unique index only.
\<close>

definition insert_webpageAnalysis ::
  "string \<Rightarrow> string \<Rightarrow> string \<Rightarrow> string \<Rightarrow> jsval list \<Rightarrow> string
     \<Rightarrow> (string \<times> FactCheckResult) list \<Rightarrow> store \<Rightarrow> js_error + store" where
  "insert_webpageAnalysis now u title summ claims credibility results db =
     (if list_ex (\<lambda>r. wa_url r = u) (webpageAnalyses db)
      then Inl (Error ''UNIQUE constraint failed: webpage_analyses.url'')
      else Inr (db\<lparr>webpageAnalyses := webpageAnalyses db @
                   [\<lparr>wa_id = Suc (length (webpageAnalyses db)), wa_url = u, wa_title = title,
                     wa_summary = summ, claimsExtracted = claims,
                     overallCredibility = credibility, factCheckResults = results,
                     analyzedAt = now\<rparr>]\<rparr>))"

definition insert_dailyDigest ::
  "string \<Rightarrow> string \<Rightarrow> jsval \<Rightarrow> string \<Rightarrow> store \<Rightarrow> js_error + store" where
  "insert_dailyDigest now targetDate trending summ db =
     (if list_ex (\<lambda>r. digestDate r = targetDate) (dailyDigests db)
      then Inl (Error ''UNIQUE constraint failed: daily_digests.digest_date'')
      else Inr (db\<lparr>dailyDigests := dailyDigests db @
                   [\<lparr>dd_id = Suc (length (dailyDigests db)), digestDate = targetDate,
                     trendingClaims = trending, dd_summary = summ, generatedAt = now\<rparr>]\<rparr>))"


section \<open>The three tools\<close>

text \<open>
  What a tool handler returns, by the values its text renders: the fields of the stored
  row on a cache hit, the fields of the fresh result otherwise, or the error text.
\<close>

datatype tool_response =
    CachedResult text_cell "real option" "jsval list" text_cell
  | VerificationComplete jsval jsnum "jsval list" jsval
  | CachedAnalysis string string string "jsval list"
  | AnalysisComplete string string string nat "(string \<times> FactCheckResult) list"
  | DigestFound string string jsval
  | DigestGenerated string string jsval nat nat
  | ToolError string

text \<open>
  A handler takes the external world, the store's clock \<open>now\<close> and the store, and returns
  its response, the store afterwards and the external calls it made.

  In \<open>verify_claim\<close> the text of the response is built after the insert, still inside
  the handler's \<open>try\<close>: its template literals convert the status and the reasoning to
  strings, and a TypeError there would be answered with the error text, the row being
  stored already.  (The fields of a stored row read back as strings, \<open>null\<close> or arrays of
  numbers, which convert.)
\<close>

definition verify_claim ::
  "external_world \<Rightarrow> string \<Rightarrow> store \<Rightarrow> string \<Rightarrow> string option
     \<Rightarrow> tool_response \<times> store \<times> event list" where
  "verify_claim env now db claim context =
     (let existingCheck =
            take 1 (orderBy_desc createdAt (filter (\<lambda>r. claimText r = claim) (factChecks db)))
      in case existingCheck of
           existing # _ \<Rightarrow>
             (CachedResult (verificationStatus existing) (confidenceScore existing)
                (sources existing) (fc_reasoning existing), db, [])
         | [] \<Rightarrow>
             (case verifyClaim env claim context of
                (Inl error, calls) \<Rightarrow>
                  (ToolError (''Error verifying claim: '' @ error_message error), db, calls)
              | (Inr result, calls) \<Rightarrow>
                  (case insert_factCheck env now claim result db of
                     Inl error \<Rightarrow>
                       (ToolError (''Error verifying claim: '' @ error_message error), db, calls)
                   | Inr db' \<Rightarrow>
                       if converts (status result) \<and> converts (reasoning result) then
                         (VerificationComplete (status result) (result_confidence result)
                            (result_sources result) (reasoning result), db', calls)
                       else
                         (ToolError (''Error verifying claim: '' @
                                     ''Cannot convert object to primitive value''), db', calls))))"

record WebpageContent =
  wc_title :: string
  wc_content :: string
  wc_url :: string

definition scrapeWebpage :: "external_world \<Rightarrow> string \<Rightarrow> js_error + WebpageContent" where
  "scrapeWebpage env u =
     try_catch
       (case webpage env u of
          PageFails e \<Rightarrow> Inl e
        | Page titleMatch cleanHtml \<Rightarrow>
            Inr \<lparr>wc_title = (case titleMatch of Some t \<Rightarrow> trim t | None \<Rightarrow> ''Unknown Title''),
                 wc_content = take 5000 cleanHtml, wc_url = u\<rparr>)
       (\<lambda>error. Inl (Error (''Failed to scrape webpage: '' @ error_message error)))"

text \<open>
  One turn of \<open>for (const claim of extractedClaims.slice(0, 3))\<close>.  The array is cast to
  \<open>string[]\<close> but holds whatever the model's JSON holds; on an element that is no string
  \<open>claim.toLowerCase()\<close> throws at the top of \<open>verifyClaim\<close>.
\<close>

definition verify_extracted ::
  "external_world \<Rightarrow> string \<Rightarrow> jsval \<Rightarrow> (js_error + string \<times> FactCheckResult) \<times> event list" where
  "verify_extracted env title c =
     (case c of
        JStr claim \<Rightarrow>
          (case verifyClaim env claim (Some (''From webpage: '' @ title)) of
             (Inl error, calls) \<Rightarrow> (Inl error, calls)
           | (Inr result, calls) \<Rightarrow> (Inr (claim, result), calls))
      | _ \<Rightarrow> (Inl (Error ''claim.toLowerCase is not a function''), []))"

fun verify_each ::
  "external_world \<Rightarrow> string \<Rightarrow> jsval list
     \<Rightarrow> (js_error + (string \<times> FactCheckResult) list) \<times> event list" where
  "verify_each env title [] = (Inr [], [])"
| "verify_each env title (c # cs) =
     (case verify_extracted env title c of
        (Inl error, calls) \<Rightarrow> (Inl error, calls)
      | (Inr r, calls) \<Rightarrow>
          (case verify_each env title cs of
             (Inl error, calls') \<Rightarrow> (Inl error, calls @ calls')
           | (Inr rs, calls') \<Rightarrow> (Inr (r # rs), calls @ calls')))"

definition avgConfidence :: "(string \<times> FactCheckResult) list \<Rightarrow> jsnum" where
  "avgConfidence results =
     js_div_length (fold (\<lambda>r sum. js_plus sum (result_confidence (snd r))) results (Num 0))
       (length results)"

definition credibility :: "jsnum \<Rightarrow> string" where
  "credibility avg =
     (if js_ge avg 0.8 then ''high''
      else if js_ge avg 0.6 then ''medium''
      else if js_ge avg 0.3 then ''low''
      else ''unknown'')"

definition analyze_webpage ::
  "external_world \<Rightarrow> string \<Rightarrow> store \<Rightarrow> string \<Rightarrow> string list option
     \<Rightarrow> tool_response \<times> store \<times> event list" where
  "analyze_webpage env now db u focus_areas =
     (case take 1 (filter (\<lambda>r. wa_url r = u) (webpageAnalyses db)) of
        existing # _ \<Rightarrow>
          (CachedAnalysis (wa_title existing) (wa_summary existing)
             (overallCredibility existing) (claimsExtracted existing), db, [])
      | [] \<Rightarrow>
         (case scrapeWebpage env u of
            Inl error \<Rightarrow>
              (ToolError (''Error analyzing webpage: '' @ error_message error), db, [PageFetch u])
          | Inr webContent \<Rightarrow>
             (let extractPrompt =
                    ExtractPrompt (wc_title webContent) (wc_content webContent) focus_areas
              in case callCohere env extractPrompt of
                Inl error \<Rightarrow>
                  (ToolError (''Error analyzing webpage: '' @ error_message error), db,
                   [PageFetch u, ModelCall extractPrompt])
              | Inr (claimsResponse, parsed) \<Rightarrow>
                 (let extractedClaims =
                        (case parsed of Some (JArr xs) \<Rightarrow> xs | _ \<Rightarrow> [JStr claimsResponse])
                  in case verify_each env (wc_title webContent) (take 3 extractedClaims) of
                    (Inl error, calls) \<Rightarrow>
                      (ToolError (''Error analyzing webpage: '' @ error_message error), db,
                       [PageFetch u, ModelCall extractPrompt] @ calls)
                  | (Inr results, calls) \<Rightarrow>
                     (let avg = avgConfidence results;
                          summaryPrompt =
                            AnalysisSummaryPrompt (wc_title webContent) (length extractedClaims)
                              (credibility avg) avg;
                          called = [PageFetch u, ModelCall extractPrompt] @ calls @
                                   [ModelCall summaryPrompt]
                      in case callCohere env summaryPrompt of
                        Inl error \<Rightarrow>
                          (ToolError (''Error analyzing webpage: '' @ error_message error), db,
                           called)
                      | Inr (summ, _) \<Rightarrow>
                         (case insert_webpageAnalysis now u (wc_title webContent) summ
                                 extractedClaims (credibility avg) results db of
                            Inl error \<Rightarrow>
                              (ToolError (''Error analyzing webpage: '' @ error_message error),
                               db, called)
                          | Inr db' \<Rightarrow>
                              (AnalysisComplete (wc_title webContent) summ (credibility avg)
                                 (length extractedClaims) results, db', called)))))))"

text \<open>The rows the digest is built from.\<close>

definition recentChecks :: "store \<Rightarrow> string \<Rightarrow> FactCheckRow list" where
  "recentChecks db targetDate =
     take 20 (orderBy_desc createdAt (filter (\<lambda>r. createdAt r \<ge> targetDate) (factChecks db)))"

definition recentAnalyses :: "store \<Rightarrow> string \<Rightarrow> WebpageAnalysisRow list" where
  "recentAnalyses db targetDate =
     take 10
       (orderBy_desc analyzedAt (filter (\<lambda>r. analyzedAt r \<ge> targetDate) (webpageAnalyses db)))"

definition analysis_error :: jsval where
  "analysis_error =
     JArr [JObj [(''topic'', JStr ''Analysis Error''),
                 (''description'', JStr ''Unable to identify trending topics'')]]"

text \<open>
  \<open>today\<close> is \<open>new Date().toISOString().split("T")[0]\<close>, the date of the handler's
  own clock.
\<close>

definition generate_daily_digest ::
  "external_world \<Rightarrow> string \<Rightarrow> string \<Rightarrow> store \<Rightarrow> string option \<Rightarrow> bool
     \<Rightarrow> tool_response \<times> store \<times> event list" where
  "generate_daily_digest env today now db date include_trending =
     (let targetDate = (case date of Some d \<Rightarrow> if d \<noteq> [] then d else today | None \<Rightarrow> today)
      in case take 1 (filter (\<lambda>r. digestDate r = targetDate) (dailyDigests db)) of
        existing # _ \<Rightarrow>
          (DigestFound targetDate (dd_summary existing) (trendingClaims existing), db, [])
      | [] \<Rightarrow>
         (let checks = recentChecks db targetDate;
              analyses = recentAnalyses db targetDate;
              trendingPrompt = TrendingPrompt checks;
              asked = (include_trending \<and> length checks > 0);
              trending =
                (if asked then
                   (case cohere env trendingPrompt of
                      Throws e \<Rightarrow> analysis_error
                    | Text t None \<Rightarrow> analysis_error
                    | Text t (Some v) \<Rightarrow> v)
                 else JArr []);
              summaryPrompt = DigestSummaryPrompt targetDate checks (length analyses);
              called = (if asked then [ModelCall trendingPrompt] else []) @
                       [ModelCall summaryPrompt]
          in case callCohere env summaryPrompt of
            Inl error \<Rightarrow>
              (ToolError (''Error generating daily digest: '' @ error_message error), db, called)
          | Inr (summ, _) \<Rightarrow>
             (case insert_dailyDigest now targetDate trending summ db of
                Inl error \<Rightarrow>
                  (ToolError (''Error generating daily digest: '' @ error_message error), db,
                   called)
              | Inr db' \<Rightarrow>
                  (DigestGenerated targetDate summ trending (length checks) (length analyses),
                   db', called))))"


section \<open>Notions used to state the properties\<close>

text \<open>The evidence \<open>verifyClaim\<close> collects, and its URLs.\<close>

definition evidence :: "external_world \<Rightarrow> string \<Rightarrow> evidence_record list" where
  "evidence env claim = externalResults (collectEvidence env claim)"

definition evidence_urls :: "evidence_record list \<Rightarrow> jsval list" where
  "evidence_urls results = map url results"

text \<open>
  The adapters \<open>verifyClaim\<close> queries for a claim, in order, each with the name of its
  source: the three general ones, those the words of the claim ask for, and Wikidata.
\<close>

definition adapters_for ::
  "string \<Rightarrow> (string \<times> (external_world \<Rightarrow> string \<Rightarrow> js_error + evidence_record option)) list" where
  "adapters_for claim =
     (let lowerClaim = toLowerCase claim in
      [(''Wikipedia'', searchWikipedia), (''DuckDuckGo'', searchDuckDuckGo),
       (''Snopes'', searchSnopes)] @
      (if isEsports lowerClaim then [(''Liquipedia'', searchLiquipedia)] else []) @
      (if isSports lowerClaim then [(''ESPN'', searchESPN), (''TheSportsDB'', searchSportsDB)]
       else []) @
      (if isMedical lowerClaim then [(''PubMed'', searchPubMed), (''WHO'', searchWHO)] else []) @
      (if isFinancial lowerClaim then [(''SEC'', searchSEC)] else []) @
      (if isScientific lowerClaim then [(''arXiv'', searchArXiv)] else []) @
      [(''Wikidata'', queryWikidata)])"

text \<open>The queries made to them, and the records they return.\<close>

definition source_queries :: "string \<Rightarrow> event list" where
  "source_queries claim = map (\<lambda>a. AdapterQuery (fst a) claim) (adapters_for claim)"

definition records_found :: "external_world \<Rightarrow> string \<Rightarrow> evidence_record list" where
  "records_found env claim =
     concat (map (\<lambda>a. case snd a env claim of Inr (Some r) \<Rightarrow> [r] | _ \<Rightarrow> [])
               (adapters_for claim))"

text \<open>
  The prompt a verification sends to the model, from the records found, or the error
  thrown by the conflict analysis or by the prompt building.
\<close>

definition verify_prompt :: "external_world \<Rightarrow> string \<Rightarrow> string option \<Rightarrow> js_error + prompt" where
  "verify_prompt env claim context =
     and_then (conflictAnalysis_of (records_found env claim))
       (build_prompt claim context (records_found env claim))"

text \<open>The external calls of a verification: the queries, then the model call if it is reached.\<close>

definition verify_calls :: "external_world \<Rightarrow> string \<Rightarrow> string option \<Rightarrow> event list" where
  "verify_calls env claim context =
     source_queries claim @
     (case verify_prompt env claim context of Inl e \<Rightarrow> [] | Inr p \<Rightarrow> [ModelCall p])"

text \<open>A number of the closed interval from 0 to 1.\<close>

fun in_unit_interval :: "jsnum \<Rightarrow> bool" where
  "in_unit_interval (Num c) = (0 \<le> c \<and> c \<le> 1)"
| "in_unit_interval x = False"



text \<open>
  The claims a webpage analysis works on, the prompt it asks the summary with, and the
  row it stores.
\<close>

definition extracted_claims :: "string \<Rightarrow> jsval option \<Rightarrow> jsval list" where
  "extracted_claims response parsed =
     (case parsed of Some (JArr xs) \<Rightarrow> xs | _ \<Rightarrow> [JStr response])"

definition extract_prompt :: "WebpageContent \<Rightarrow> string list option \<Rightarrow> prompt" where
  "extract_prompt page focus = ExtractPrompt (wc_title page) (wc_content page) focus"

definition summary_prompt ::
  "WebpageContent \<Rightarrow> jsval list \<Rightarrow> (string \<times> FactCheckResult) list \<Rightarrow> prompt" where
  "summary_prompt page claims results =
     AnalysisSummaryPrompt (wc_title page) (length claims)
       (credibility (avgConfidence results)) (avgConfidence results)"

definition analysis_row ::
  "nat \<Rightarrow> string \<Rightarrow> string \<Rightarrow> WebpageContent \<Rightarrow> string \<Rightarrow> jsval list
     \<Rightarrow> (string \<times> FactCheckResult) list \<Rightarrow> WebpageAnalysisRow" where
  "analysis_row n now u page summ claims results =
     \<lparr>wa_id = n, wa_url = u, wa_title = wc_title page, wa_summary = summ,
      claimsExtracted = claims, overallCredibility = credibility (avgConfidence results),
      factCheckResults = results, analyzedAt = now\<rparr>"


text \<open>The claims for which a sequence of external calls asks the model for a verdict.\<close>

fun verified_claims :: "event list \<Rightarrow> string list" where
  "verified_claims [] = []"
| "verified_claims (ModelCall (VerifyPrompt claim context results conflictAnalysis) # es) =
     claim # verified_claims es"
| "verified_claims (e # es) = verified_claims es"

text \<open>The calendar day of a time stamp \<open>YYYY-MM-DD HH:MM:SS\<close>.\<close>

definition day_of :: "string \<Rightarrow> string" where
  "day_of stamp = take 10 stamp"


text \<open>
  The date a digest request is for (\<open>date || today\<close>), the trending topics the handler
  derives from the rows it aggregates, and the model calls it makes for them.
\<close>

definition target_date :: "string \<Rightarrow> string option \<Rightarrow> string" where
  "target_date today date = (case date of Some d \<Rightarrow> if d \<noteq> [] then d else today | None \<Rightarrow> today)"

definition digest_trending :: "external_world \<Rightarrow> bool \<Rightarrow> FactCheckRow list \<Rightarrow> jsval" where
  "digest_trending env include_trending checks =
     (if include_trending \<and> length checks > 0 then
        (case cohere env (TrendingPrompt checks) of
           Throws e \<Rightarrow> analysis_error
         | Text t None \<Rightarrow> analysis_error
         | Text t (Some v) \<Rightarrow> v)
      else JArr [])"

definition digest_calls :: "bool \<Rightarrow> string \<Rightarrow> FactCheckRow list \<Rightarrow> nat \<Rightarrow> event list" where
  "digest_calls include_trending d checks na =
     (if include_trending \<and> length checks > 0 then [ModelCall (TrendingPrompt checks)] else []) @
     [ModelCall (DigestSummaryPrompt d checks na)]"


section \<open>Example inputs\<close>

definition snopes_says :: "string \<Rightarrow> (string, string) ExternalFactCheckResult" where
  "snopes_says v =
     \<lparr>source = ''Snopes'', verdict = Some v, summary = ''A rumour...'',
      url = ''https://www.snopes.com/fact-check/rumour'', confidence = 0.9\<rparr>"

definition report :: "string \<Rightarrow> string \<Rightarrow> (string, string) ExternalFactCheckResult" where
  "report name text =
     \<lparr>source = name, verdict = None, summary = text,
      url = ''https://example.org/'' @ name, confidence = 0.8\<rparr>"

text \<open>
  A store whose text columns take a string as it is, a number as its text, a boolean
  as the text of 1 or 0, \<open>null\<close> and a number that is not finite as \<open>NULL\<close>, and
  nothing else.
\<close>

definition text_column :: "jsval \<Rightarrow> js_error + text_cell" where
  "text_column v =
     (case v of
        JStr s \<Rightarrow> Inr (TextCell s)
      | JNum n \<Rightarrow> (case n of Num x \<Rightarrow> Inr (NumberText x) | _ \<Rightarrow> Inr NullCell)
      | JBool b \<Rightarrow> Inr (NumberText (if b then 1 else 0))
      | JNull \<Rightarrow> Inr NullCell
      | _ \<Rightarrow> Inl (Error ''D1_TYPE_ERROR''))"

text \<open>A world in which every source answers with a response that is not OK.\<close>

definition silent_world :: "model_reply \<Rightarrow> external_world" where
  "silent_world reply =
     \<lparr>wikipedia_api = (\<lambda>q. NotOk), duckduckgo_api = (\<lambda>q. NotOk), snopes_feed = NotOk,
      wikidata_api = (\<lambda>q. NotOk), liquipedia_api = (\<lambda>g q. NotOk), espn_feed = NotOk,
      sportsdb_api = (\<lambda>q. NotOk), pubmed_search = (\<lambda>q. NotOk),
      pubmed_summary = (\<lambda>i. NotOk), who_feed = NotOk, sec_edgar = (\<lambda>q. NotOk),
      arxiv_api = (\<lambda>q. NotOk), cohere = (\<lambda>p. reply),
      webpage = (\<lambda>u. PageFails (Error ''Failed to fetch webpage: Not Found'')),
      d1_text = text_column\<rparr>"

text \<open>The same world with a Wikipedia page for every query.\<close>

definition wikipedia_world :: "model_reply \<Rightarrow> external_world" where
  "wikipedia_world reply =
     (silent_world reply)
       \<lparr>wikipedia_api :=
          (\<lambda>q. Body \<lparr>wiki_extract = JStr ''The Sun is the star of the Solar System.'',
                      wiki_page = JStr ''https://en.wikipedia.org/wiki/Sun''\<rparr>)\<rparr>"

text \<open>
  The same world with an instant answer whose abstract DuckDuckGo attributes to the WHO.
\<close>

definition abstract_world :: "model_reply \<Rightarrow> external_world" where
  "abstract_world reply =
     (silent_world reply)
       \<lparr>duckduckgo_api :=
          (\<lambda>q. Body \<lparr>Answer = [], AbstractText = ''Sunlight is a source of vitamin D.'',
                      AbstractSource = ''WHO'',
                      AbstractURL = JStr ''https://www.who.int/sunlight''\<rparr>)\<rparr>"

definition payload :: "(string \<times> jsval) list \<Rightarrow> model_reply" where
  "payload kvs = Text ''{...}'' (Some (JObj kvs))"

definition sun :: string where
  "sun = ''The Sun rises in the east''"

definition sun_page :: jsval where
  "sun_page = JStr ''https://en.wikipedia.org/wiki/Sun''"

definition nasa_page :: jsval where
  "nasa_page = JStr ''https://science.nasa.gov/sun''"

definition empty_store :: store where
  "empty_store = \<lparr>factChecks = [], webpageAnalyses = [], dailyDigests = []\<rparr>"

text \<open>
  A model that names four claims when asked to extract, gives no JSON when asked for
  a verdict, and answers every other prompt with a sentence.
\<close>

definition four_claims :: "prompt \<Rightarrow> model_reply" where
  "four_claims p =
     (case p of
        ExtractPrompt title content focus \<Rightarrow>
          Text ''[...]'' (Some (JArr [JStr ''a'', JStr ''b'', JStr ''c'', JStr ''d'']))
      | VerifyPrompt claim context results conflictAnalysis \<Rightarrow> Text ''Hard to say.'' None
      | _ \<Rightarrow> Text ''A short summary.'' None)"

definition page_world :: external_world where
  "page_world =
     (silent_world (Throws NonError))
       \<lparr>cohere := four_claims, webpage := (\<lambda>u. Page (Some ''News'') ''Some text.'')\<rparr>"

text \<open>
  The world of \<open>abstract_world\<close> in which Wikipedia has a page too, one whose \<open>extract\<close>
  is the number 42 and which gives no URL.
\<close>

definition numeric_extract_world :: "model_reply \<Rightarrow> external_world" where
  "numeric_extract_world reply =
     (abstract_world reply)
       \<lparr>wikipedia_api :=
          (\<lambda>q. Body \<lparr>wiki_extract = JNum (Num 42), wiki_page = JUndefined\<rparr>)\<rparr>"

text \<open>
  A model that names one claim when asked to extract, gives no JSON when asked for a
  verdict, and answers every other prompt with a sentence; a world with it and a page.
\<close>

definition one_claim :: "prompt \<Rightarrow> model_reply" where
  "one_claim p =
     (case p of
        ExtractPrompt title content focus \<Rightarrow> Text ''[...]'' (Some (JArr [JStr ''a'']))
      | VerifyPrompt claim context results conflictAnalysis \<Rightarrow> Text ''Hard to say.'' None
      | _ \<Rightarrow> Text ''A short summary.'' None)"

definition brief_world :: external_world where
  "brief_world =
     (silent_world (Throws NonError))
       \<lparr>cohere := one_claim, webpage := (\<lambda>u. Page (Some ''News'') ''Some text.'')\<rparr>"

text \<open>A store with one verdict, created on the second of January.\<close>

definition later_store :: store where
  "later_store =
     \<lparr>factChecks =
        [\<lparr>fc_id = 1, claimText = sun, verificationStatus = TextCell ''true'',
          confidenceScore = Some 0.9, sources = [sun_page], fc_reasoning = TextCell ''Astronomy.'',
          createdAt = ''2024-01-02 08:00:00'', updatedAt = ''2024-01-02 08:00:00''\<rparr>],
      webpageAnalyses = [], dailyDigests = []\<rparr>"
text \<open>The verdict the model of \<open>page_world\<close> leads to, and the analysis of a page there.\<close>

definition hard_to_say :: FactCheckResult where
  "hard_to_say =
     \<lparr>status = JStr ''unverified'', result_confidence = Num 0.3, result_sources = [],
      reasoning = JStr ''Hard to say.''\<rparr>"

definition news_analysis :: "tool_response \<times> store \<times> event list" where
  "news_analysis =
     analyze_webpage page_world ''2024-01-01 10:00:00'' empty_store ''https://example.org/news'' None"

definition brief_analysis :: "tool_response \<times> store \<times> event list" where
  "brief_analysis =
     analyze_webpage brief_world ''2024-01-01 10:00:00'' empty_store ''https://example.org/news'' None"

text \<open>A store with verdicts of three consecutive days.\<close>

definition verdict_row :: "nat \<Rightarrow> string \<Rightarrow> string \<Rightarrow> FactCheckRow" where
  "verdict_row i claim stamp =
     \<lparr>fc_id = i, claimText = claim, verificationStatus = TextCell ''true'',
      confidenceScore = Some 0.9, sources = [sun_page], fc_reasoning = TextCell ''Astronomy.'',
      createdAt = stamp, updatedAt = stamp\<rparr>"

definition three_day_store :: store where
  "three_day_store =
     \<lparr>factChecks =
        [verdict_row 1 ''The Sun is a star'' ''2023-12-31 23:59:59'',
         verdict_row 2 ''The Sun rises in the east'' ''2024-01-01 12:00:00'',
         verdict_row 3 ''The Sun sets in the west'' ''2024-01-02 08:00:00''],
      webpageAnalyses = [], dailyDigests = []\<rparr>"

text \<open>A first verification on the empty store, and a first digest on \<open>later_store\<close>.\<close>

definition first_verdict :: "tool_response \<times> store \<times> event list" where
  "first_verdict =
     verify_claim (silent_world (Text ''I cannot say.'' None)) ''2024-01-01 10:00:00''
       empty_store sun None"

definition first_digest :: "tool_response \<times> store \<times> event list" where
  "first_digest =
     generate_daily_digest (silent_world (Text ''A quiet day.'' None)) ''2024-01-03''
       ''2024-01-03 09:00:00'' later_store (Some ''2024-01-01'') True"


section \<open>The conflict analyzer\<close>

lemma keyword_label_has_verdict:
  assumes "verdict r = Some v" and "str_includes (toLowerCase v) (k # ks)"
  shows "has_verdict r"
proof -
  have "v \<noteq> []"
  proof
    assume "v = []"
    with assms(2) show False by (simp add: toLowerCase_def)
  qed
  with assms(1) show ?thesis by (simp add: has_verdict_def)
qed

lemma label_among_verdicts:
  assumes "i < length results" and "verdict (results ! i) = Some v"
    and "str_includes (toLowerCase v) (k # ks)"
  shows "list_ex (\<lambda>l. str_includes l (k # ks))
           (map (\<lambda>r. toLowerCase (verdict_text r)) (filter has_verdict results))"
proof -
  have "results ! i \<in> set (filter has_verdict results)"
    using assms keyword_label_has_verdict by (simp add: nth_mem)
  moreover have "toLowerCase (verdict_text (results ! i)) = toLowerCase v"
    using assms(2) by (simp add: verdict_text_def)
  ultimately show ?thesis
    unfolding list_ex_iff using assms(3) by force
qed

text \<open>
  Claim C8, as amended.  With fewer than two records the analyzer reports no conflict.
  With two or more, if the case-folded verdict label of one record contains \<open>true\<close> and
  that of another contains \<open>false\<close>, it reports a conflict, and the explanation is the
  text \<open>Sources provide conflicting verdicts (some say true, others say false)\<close>.
\<close>

theorem conflicting_verdicts:
  "(length results < 2 \<longrightarrow>
      analyzeSourceConflicts results = \<lparr>hasConflicts = False, conflictSummary = []\<rparr>) \<and>
   (2 \<le> length results \<and> i < length results \<and> j < length results \<and> i \<noteq> j \<and>
    verdict (results ! i) = Some v \<and> str_includes (toLowerCase v) ''true'' \<and>
    verdict (results ! j) = Some w \<and> str_includes (toLowerCase w) ''false'' \<longrightarrow>
      analyzeSourceConflicts results =
        \<lparr>hasConflicts = True,
         conflictSummary =
           ''Sources provide conflicting verdicts (some say true, others say false)''\<rparr>)"
proof (intro conjI impI)
  assume "length results < 2"
  then show "analyzeSourceConflicts results = \<lparr>hasConflicts = False, conflictSummary = []\<rparr>"
    by (simp add: analyzeSourceConflicts_def)
next
  assume h: "2 \<le> length results \<and> i < length results \<and> j < length results \<and> i \<noteq> j \<and>
    verdict (results ! i) = Some v \<and> str_includes (toLowerCase v) ''true'' \<and>
    verdict (results ! j) = Some w \<and> str_includes (toLowerCase w) ''false''"
  have t: "list_ex (\<lambda>l. str_includes l ''true'')
             (map (\<lambda>r. toLowerCase (verdict_text r)) (filter has_verdict results))"
    using h label_among_verdicts [of i results v] by blast
  have f: "list_ex (\<lambda>l. str_includes l ''false'')
             (map (\<lambda>r. toLowerCase (verdict_text r)) (filter has_verdict results))"
    using h label_among_verdicts [of j results w] by blast
  from h have "\<not> length results < 2" by simp
  with t f show "analyzeSourceConflicts results =
        \<lparr>hasConflicts = True,
         conflictSummary =
           ''Sources provide conflicting verdicts (some say true, others say false)''\<rparr>"
    by (simp add: analyzeSourceConflicts_def Let_def)
qed

text \<open>
  Witness for C8: the labels \<open>True\<close> and \<open>False\<close> of two records, and a single record.
\<close>

theorem conflicting_verdicts_witness:
  "analyzeSourceConflicts [snopes_says ''True'', snopes_says ''False''] =
     \<lparr>hasConflicts = True,
      conflictSummary =
        ''Sources provide conflicting verdicts (some say true, others say false)''\<rparr> \<and>
   analyzeSourceConflicts [snopes_says ''True''] =
     \<lparr>hasConflicts = False, conflictSummary = []\<rparr>"
proof -
  have t: "str_includes (toLowerCase ''True'') ''true''" by code_simp
  have f: "str_includes (toLowerCase ''False'') ''false''" by code_simp
  have "analyzeSourceConflicts [snopes_says ''True'', snopes_says ''False''] =
     \<lparr>hasConflicts = True,
      conflictSummary =
        ''Sources provide conflicting verdicts (some say true, others say false)''\<rparr>"
    using t f
      conflicting_verdicts [of "[snopes_says ''True'', snopes_says ''False'']" 0 1
        "''True''" "''False''"]
    by (simp add: snopes_says_def)
  moreover have "analyzeSourceConflicts [snopes_says ''True''] =
     \<lparr>hasConflicts = False, conflictSummary = []\<rparr>"
    using conflicting_verdicts [of "[snopes_says ''True'']" 0 0 "''True''" "''True''"]
    by simp
  ultimately show ?thesis by simp
qed

text \<open>
  Counterexample for C8 as stated: on the labels \<open>True\<close> and \<open>False\<close> a conflict is
  reported, and the explanation is not the text \<open>Sources provide conflicting verdicts.\<close>
\<close>

theorem conflicting_verdicts_text_counterexample:
  "hasConflicts (analyzeSourceConflicts [snopes_says ''True'', snopes_says ''False'']) \<and>
   conflictSummary (analyzeSourceConflicts [snopes_says ''True'', snopes_says ''False''])
     \<noteq> ''Sources provide conflicting verdicts.''"
  by code_simp

text \<open>
  Claim C7, evaluated where the code departs from it.  One source reports that the team
  lost and the other that it won.  With the \<open>lost\<close> report first the pair is not
  flagged; with the same two reports in the other order it is.
\<close>

theorem opposite_order_not_flagged:
  "analyzeSourceConflicts [report ''Wikipedia'' ''The team lost the final'',
                           report ''Wikidata'' ''The team won the final''] =
     \<lparr>hasConflicts = False, conflictSummary = []\<rparr> \<and>
   analyzeSourceConflicts [report ''Wikidata'' ''The team won the final'',
                           report ''Wikipedia'' ''The team lost the final''] =
     \<lparr>hasConflicts = True,
      conflictSummary = ''Conflicting information between: Wikidata vs Wikipedia''\<rparr>"
  by code_simp


section \<open>Source adapters and the collector\<close>

lemma caught: "\<exists>r. try_catch body return_null = Inr r"
  by (cases body) (simp_all add: try_catch_def return_null_def)

lemma try_source_Inr: "left (try_source wanted name claim (Inr r) st) = left st"
  by (cases r) (simp_all add: try_source_def)

lemma try_source_keeps:
  assumes "\<exists>r. outcome = Inr r" and "\<not> left st"
  shows "\<not> left (try_source wanted name claim outcome st)"
  using assms try_source_Inr by fastforce

lemma adapters_return:
  "\<exists>r. searchWikipedia env q = Inr r" "\<exists>r. searchDuckDuckGo env q = Inr r"
  "\<exists>r. searchSnopes env q = Inr r" "\<exists>r. queryWikidata env q = Inr r"
  "\<exists>r. searchLiquipedia env q = Inr r" "\<exists>r. searchESPN env q = Inr r"
  "\<exists>r. searchSportsDB env q = Inr r" "\<exists>r. searchPubMed env q = Inr r"
  "\<exists>r. searchWHO env q = Inr r" "\<exists>r. searchSEC env q = Inr r"
  "\<exists>r. searchArXiv env q = Inr r"
  unfolding searchWikipedia_def searchDuckDuckGo_def searchSnopes_def queryWikidata_def
    searchLiquipedia_def searchESPN_def searchSportsDB_def searchPubMed_def searchWHO_def
    searchSEC_def searchArXiv_def
  by (rule caught)+

lemma collect_not_left: "\<not> left (collectEvidence env claim)"
  unfolding collectEvidence_def Let_def
  by (intro try_source_keeps adapters_return) simp

lemma try_source_returned:
  "try_source wanted name claim (Inr r) st =
     (if left st \<or> \<not> wanted then st
      else st\<lparr>externalResults := externalResults st @ (case r of Some x \<Rightarrow> [x] | None \<Rightarrow> []),
              queried := queried st @ [AdapterQuery name claim]\<rparr>)"
  by (cases r) (simp_all add: try_source_def)

lemma fold_try_source:
  assumes "\<forall>a\<in>set plan. \<exists>r. snd (snd a) env claim = Inr r" and "\<not> left st"
  shows "queried (fold (\<lambda>a. try_source (fst a) (fst (snd a)) claim (snd (snd a) env claim)) plan st) =
           queried st @ map (\<lambda>a. AdapterQuery (fst (snd a)) claim) (filter fst plan) \<and>
         externalResults
           (fold (\<lambda>a. try_source (fst a) (fst (snd a)) claim (snd (snd a) env claim)) plan st) =
           externalResults st @
           concat (map (\<lambda>a. case snd (snd a) env claim of Inr (Some r) \<Rightarrow> [r] | _ \<Rightarrow> [])
                     (filter fst plan)) \<and>
         \<not> left (fold (\<lambda>a. try_source (fst a) (fst (snd a)) claim (snd (snd a) env claim)) plan st)"
  using assms
proof (induction plan arbitrary: st)
  case Nil
  then show ?case by simp
next
  case (Cons a plan)
  from Cons.prems(1) obtain r where r: "snd (snd a) env claim = Inr r" by auto
  let ?st = "try_source (fst a) (fst (snd a)) claim (snd (snd a) env claim) st"
  have l: "\<not> left ?st"
    using Cons.prems(2) unfolding r try_source_returned by simp
  have q: "queried ?st = queried st @ (if fst a then [AdapterQuery (fst (snd a)) claim] else [])"
    using Cons.prems(2) unfolding r try_source_returned by simp
  have e: "externalResults ?st =
             externalResults st @ (if fst a then (case r of Some x \<Rightarrow> [x] | None \<Rightarrow> []) else [])"
    using Cons.prems(2) unfolding r try_source_returned by simp
  from Cons.prems(1) have "\<forall>a\<in>set plan. \<exists>r. snd (snd a) env claim = Inr r" by simp
  from Cons.IH [OF this l] show ?case
    unfolding fold_simps q e by (simp add: r)
qed

lemma collect_sources:
  "queried (collectEvidence env claim) = source_queries claim \<and>
   externalResults (collectEvidence env claim) = records_found env claim"
proof -
  let ?lc = "toLowerCase claim"
  let ?plan = "[(True, ''Wikipedia'', searchWikipedia), (True, ''DuckDuckGo'', searchDuckDuckGo),
     (True, ''Snopes'', searchSnopes), (isEsports ?lc, ''Liquipedia'', searchLiquipedia),
     (isSports ?lc, ''ESPN'', searchESPN), (isSports ?lc, ''TheSportsDB'', searchSportsDB),
     (isMedical ?lc, ''PubMed'', searchPubMed), (isMedical ?lc, ''WHO'', searchWHO),
     (isFinancial ?lc, ''SEC'', searchSEC), (isScientific ?lc, ''arXiv'', searchArXiv),
     (True, ''Wikidata'', queryWikidata)]"
  let ?s0 = "\<lparr>externalResults = [], queried = [], left = False\<rparr>"
  have c: "collectEvidence env claim =
     fold (\<lambda>a. try_source (fst a) (fst (snd a)) claim (snd (snd a) env claim)) ?plan ?s0"
    unfolding collectEvidence_def Let_def fold_simps o_apply fst_conv snd_conv ..
  have p: "\<forall>a\<in>set ?plan. \<exists>r. snd (snd a) env claim = Inr r"
    using adapters_return [of env claim] by simp
  have f: "map snd (filter fst ?plan) = adapters_for claim"
    unfolding adapters_for_def Let_def
    by (cases "isEsports ?lc"; cases "isSports ?lc"; cases "isMedical ?lc";
        cases "isFinancial ?lc"; cases "isScientific ?lc") simp_all
  have l: "\<not> left ?s0" by simp
  from fold_try_source [OF p l] have
    q: "queried (collectEvidence env claim) =
          map (\<lambda>a. AdapterQuery (fst (snd a)) claim) (filter fst ?plan)" and
    e: "externalResults (collectEvidence env claim) =
          concat (map (\<lambda>a. case snd (snd a) env claim of Inr (Some r) \<Rightarrow> [r] | _ \<Rightarrow> [])
                    (filter fst ?plan))"
    unfolding c by simp_all
  have q': "map (\<lambda>a. AdapterQuery (fst (snd a)) claim) (filter fst ?plan) =
            map (\<lambda>a. AdapterQuery (fst a) claim) (map snd (filter fst ?plan))"
    unfolding map_map o_def ..
  have e': "concat (map (\<lambda>a. case snd (snd a) env claim of Inr (Some r) \<Rightarrow> [r] | _ \<Rightarrow> [])
                    (filter fst ?plan)) =
            concat (map (\<lambda>a. case snd a env claim of Inr (Some r) \<Rightarrow> [r] | _ \<Rightarrow> [])
                    (map snd (filter fst ?plan)))"
    unfolding map_map o_def ..
  show ?thesis
    unfolding q e q' e' f source_queries_def records_found_def by simp
qed

text \<open>
  Claim C6.  For every query and every behaviour of its external system, each of the
  eleven adapters returns: its result is \<open>Inr r\<close>, never a thrown error \<open>Inl e\<close>, and
  \<open>r\<close> is one evidence record or none.  So the \<open>try\<close> block that collects the
  evidence is never left for its \<open>catch\<close>.
\<close>

theorem adapters_never_throw:
  "(\<exists>r. searchWikipedia env query = Inr r) \<and> (\<exists>r. searchDuckDuckGo env query = Inr r) \<and>
   (\<exists>r. searchSnopes env query = Inr r) \<and> (\<exists>r. queryWikidata env query = Inr r) \<and>
   (\<exists>r. searchLiquipedia env query = Inr r) \<and> (\<exists>r. searchESPN env query = Inr r) \<and>
   (\<exists>r. searchSportsDB env query = Inr r) \<and> (\<exists>r. searchPubMed env query = Inr r) \<and>
   (\<exists>r. searchWHO env query = Inr r) \<and> (\<exists>r. searchSEC env query = Inr r) \<and>
   (\<exists>r. searchArXiv env query = Inr r) \<and>
   \<not> left (collectEvidence env query)"
  by (intro conjI adapters_return collect_not_left)


section \<open>The verdict of \<open>verifyClaim\<close>\<close>

lemma model_verdict_throws:
  assumes "cohere env p = Throws e"
  shows "model_verdict env results ca p =
    Inr \<lparr>status = JStr ''unverified'',
         result_confidence = Num (if results \<noteq> [] then 0.4 else 0),
         result_sources = evidence_urls results,
         reasoning = JStr (''Error during verification: '' @ error_message e)\<rparr>"
  using assms
  by (simp add: model_verdict_def callCohere_def try_catch_def and_then_def evidence_urls_def)

lemma model_verdict_malformed:
  assumes "cohere env p = Text t None"
  shows "model_verdict env results ca p =
    Inr \<lparr>status = JStr ''unverified'',
         result_confidence = Num (if results \<noteq> [] then 0.6 else 0.3),
         result_sources = evidence_urls results,
         reasoning = JStr (if t \<noteq> [] then t else ''Unable to verify claim'')\<rparr>"
  using assms
  by (simp add: model_verdict_def callCohere_def try_catch_def and_then_def evidence_urls_def
      JSON_parse_def)

lemma model_verdict_caught:
  assumes "cohere env p = Text t (Some parsed)" and "from_parsed results ca parsed = Inl e"
  shows "model_verdict env results ca p =
    Inr \<lparr>status = JStr ''unverified'',
         result_confidence = Num (if results \<noteq> [] then 0.6 else 0.3),
         result_sources = evidence_urls results,
         reasoning = JStr (if t \<noteq> [] then t else ''Unable to verify claim'')\<rparr>"
  using assms
  by (simp add: model_verdict_def callCohere_def try_catch_def and_then_def evidence_urls_def
      JSON_parse_def)

lemma model_verdict_parsed:
  assumes "cohere env p = Text t (Some parsed)" and "from_parsed results ca parsed = Inr v"
  shows "model_verdict env results ca p = Inr v"
  using assms
  by (simp add: model_verdict_def callCohere_def try_catch_def and_then_def JSON_parse_def)

lemma model_verdict_returns: "\<exists>v. model_verdict env results ca p = Inr v"
proof (cases "cohere env p")
  case (Throws e)
  then show ?thesis using model_verdict_throws [OF Throws] by simp
next
  case (Text t parsed)
  show ?thesis
  proof (cases parsed)
    case None
    with Text show ?thesis using model_verdict_malformed [of env p t] by simp
  next
    case (Some v)
    show ?thesis
    proof (cases "from_parsed results ca v")
      case (Inl e)
      with Text Some show ?thesis using model_verdict_caught [of env p t v results ca e] by simp
    next
      case (Inr r)
      with Text Some show ?thesis using model_verdict_parsed [of env p t v results ca r] by simp
    qed
  qed
qed

text \<open>The evidence collected is the records found by the adapters queried.\<close>

lemma evidence_found: "evidence env claim = records_found env claim"
  by (simp add: evidence_def collect_sources)

lemma verify_prompt_Inr:
  "verify_prompt env claim context = Inr p \<longleftrightarrow>
     (\<exists>ca. conflictAnalysis_of (evidence env claim) = Inr ca \<and>
           build_prompt claim context (evidence env claim) ca = Inr p)"
  by (cases "conflictAnalysis_of (evidence env claim)")
     (simp_all add: verify_prompt_def and_then_def evidence_found)

lemma build_prompt_Inr:
  assumes "build_prompt claim context results ca = Inr p"
  shows "p = VerifyPrompt claim context results ca"
  using assms by (simp add: build_prompt_def split: if_splits)

lemma verifyClaim_reaches:
  assumes "conflictAnalysis_of (evidence env claim) = Inr ca"
    and "build_prompt claim context (evidence env claim) ca = Inr p"
  shows "verifyClaim env claim context =
    (model_verdict env (evidence env claim) ca p, source_queries claim @ [ModelCall p])"
  using assms collect_sources [of env claim]
  by (simp add: verifyClaim_def evidence_def Let_def and_then_def)

lemma verifyClaim_stops:
  assumes "verify_prompt env claim context = Inl e"
  shows "verifyClaim env claim context = (Inl e, source_queries claim)"
proof (cases "conflictAnalysis_of (evidence env claim)")
  case (Inl e')
  with assms collect_sources [of env claim] show ?thesis
    by (simp add: verifyClaim_def verify_prompt_def evidence_def Let_def and_then_def)
next
  case (Inr ca)
  with assms collect_sources [of env claim] show ?thesis
    by (simp add: verifyClaim_def verify_prompt_def evidence_def Let_def and_then_def)
qed

lemma verifyClaim_calls_made: "snd (verifyClaim env claim context) = verify_calls env claim context"
proof (cases "verify_prompt env claim context")
  case (Inl e)
  then show ?thesis using verifyClaim_stops [OF Inl] by (simp add: verify_calls_def)
next
  case (Inr p)
  then obtain ca where "conflictAnalysis_of (evidence env claim) = Inr ca"
    "build_prompt claim context (evidence env claim) ca = Inr p"
    unfolding verify_prompt_Inr by blast
  from verifyClaim_reaches [OF this] Inr show ?thesis by (simp add: verify_calls_def)
qed

text \<open>
  Once the prompt is built, \<open>verifyClaim\<close> returns a verdict whatever the model does.
  If the model call throws, the verdict is \<open>unverified\<close> with confidence 0.4 when
  evidence was collected and 0 otherwise, the evidence URLs as sources, and the text
  \<open>Error during verification: \<close> followed by the error's message as reasoning.  If the
  model's text is not JSON, the verdict is \<open>unverified\<close> with confidence 0.6 when
  evidence was collected and 0.3 otherwise, the evidence URLs as sources, and the raw text
  (or \<open>Unable to verify claim\<close> when it is empty) as reasoning.
\<close>

lemma model_failure_contained:
  assumes "verify_prompt env claim context = Inr p"
  shows "\<exists>v. fst (verifyClaim env claim context) = Inr v \<and>
     (\<forall>e. cohere env p = Throws e \<longrightarrow>
        v = \<lparr>status = JStr ''unverified'',
              result_confidence = Num (if evidence env claim \<noteq> [] then 0.4 else 0),
              result_sources = evidence_urls (evidence env claim),
              reasoning = JStr (''Error during verification: '' @ error_message e)\<rparr>) \<and>
     (\<forall>t. cohere env p = Text t None \<longrightarrow>
        v = \<lparr>status = JStr ''unverified'',
              result_confidence = Num (if evidence env claim \<noteq> [] then 0.6 else 0.3),
              result_sources = evidence_urls (evidence env claim),
              reasoning = JStr (if t \<noteq> [] then t else ''Unable to verify claim'')\<rparr>)"
proof -
  from assms obtain ca where "conflictAnalysis_of (evidence env claim) = Inr ca"
    "build_prompt claim context (evidence env claim) ca = Inr p"
    unfolding verify_prompt_Inr by blast
  from verifyClaim_reaches [OF this]
  have v: "fst (verifyClaim env claim context) = model_verdict env (evidence env claim) ca p"
    by simp
  obtain r where r: "model_verdict env (evidence env claim) ca p = Inr r"
    using model_verdict_returns by blast
  show ?thesis
    unfolding v
    using r model_verdict_throws [of env p _ "evidence env claim" ca]
      model_verdict_malformed [of env p _ "evidence env claim" ca]
    by auto
qed


lemma silent_evidence: "evidence (silent_world reply) sun = []"
  by code_simp

text \<open>
  Claim C5, evaluated where the code departs from it.  Wikipedia answers with a page
  whose \<open>extract\<close> is the number 42, and DuckDuckGo with an abstract, so two records are
  collected.  The conflict analysis, which stands outside the \<open>try\<close> blocks, calls
  \<open>toLowerCase\<close> on the number: \<open>verifyClaim\<close> throws a TypeError before the model is
  called, and the tool answers with the error text and stores nothing.
\<close>

theorem summary_not_a_string_thrown:
  "evidence (numeric_extract_world (Text ''I cannot say.'' None)) sun =
     [\<lparr>source = ''Wikipedia'', verdict = None, summary = JNum (Num 42),
       url = JStr ''https://en.wikipedia.org/wiki/The%20Sun%20rises%20in%20the%20east'',
       confidence = 0.8\<rparr>,
      \<lparr>source = ''DuckDuckGo (WHO)'', verdict = None,
       summary = JStr ''Sunlight is a source of vitamin D.'',
       url = JStr ''https://www.who.int/sunlight'', confidence = 0.6\<rparr>] \<and>
   verifyClaim (numeric_extract_world (Text ''I cannot say.'' None)) sun None =
     (Inl (Error ''r.summary.toLowerCase is not a function''),
      [AdapterQuery ''Wikipedia'' sun, AdapterQuery ''DuckDuckGo'' sun,
       AdapterQuery ''Snopes'' sun, AdapterQuery ''Wikidata'' sun]) \<and>
   verify_claim (numeric_extract_world (Text ''I cannot say.'' None)) ''2024-01-01 10:00:00''
       empty_store sun None =
     (ToolError ''Error verifying claim: r.summary.toLowerCase is not a function'', empty_store,
      [AdapterQuery ''Wikipedia'' sun, AdapterQuery ''DuckDuckGo'' sun,
       AdapterQuery ''Snopes'' sun, AdapterQuery ''Wikidata'' sun])"
  by code_simp

lemma Math_max_Num_not_NaN: "x \<noteq> NaN \<Longrightarrow> Math_max x (Num b) \<noteq> NaN"
  by (cases x) simp_all

lemma Math_max_Num_not_NaN': "x \<noteq> NaN \<Longrightarrow> Math_max (Num b) x \<noteq> NaN"
  by (cases x) simp_all

lemma js_times_not_NaN: "x \<noteq> NaN \<Longrightarrow> c > 0 \<Longrightarrow> js_times x c \<noteq> NaN"
  by (cases x) simp_all

lemma clamp_in_unit: "x \<noteq> NaN \<Longrightarrow> in_unit_interval (Math_max (Num 0) (Math_min (Num 1) x))"
  by (cases x) simp_all

lemma clamp_NaN: "Math_max (Num 0) (Math_min (Num 1) NaN) = NaN"
  by simp

lemma clamp_in_unit_or_NaN:
  "in_unit_interval (Math_max (Num 0) (Math_min (Num 1) x)) \<or>
   Math_max (Num 0) (Math_min (Num 1) x) = NaN"
  by (cases x) simp_all

text \<open>
  The clamp does what it is there for on every number: when the reported confidence
  reads as a number, the confidence of the parsed path lies between 0 and 1.  Whatever
  is reported, the confidence of a verdict lies between 0 and 1 or is NaN.
\<close>

lemma adjustedConfidence_in_unit:
  assumes "ToNumber (js_or reported (JNum (Num 0))) = Inr n" and "n \<noteq> NaN"
  shows "\<exists>c. adjustedConfidence results conflictAnalysis reported = Inr c \<and> in_unit_interval c"
  unfolding adjustedConfidence_def Let_def assms(1) and_then_def
  by (simp only: sum.case sum.inject ex_simps simp_thms)
     (intro clamp_in_unit,
      simp add: assms(2) Math_max_Num_not_NaN Math_max_Num_not_NaN' js_times_not_NaN)

lemma adjustedConfidence_in_unit_or_NaN:
  assumes "adjustedConfidence results conflictAnalysis reported = Inr c"
  shows "in_unit_interval c \<or> c = NaN"
proof (cases "ToNumber (js_or reported (JNum (Num 0)))")
  case (Inl e)
  with assms show ?thesis by (simp add: adjustedConfidence_def and_then_def)
next
  case (Inr n)
  with assms clamp_in_unit_or_NaN show ?thesis
    by (auto simp add: adjustedConfidence_def and_then_def Let_def)
qed

lemma confidence_in_unit_or_NaN:
  assumes "fst (verifyClaim env claim context) = Inr v"
  shows "in_unit_interval (result_confidence v) \<or> result_confidence v = NaN"
proof (cases "verify_prompt env claim context")
  case (Inl e)
  with assms show ?thesis using verifyClaim_stops [OF Inl] by simp
next
  case (Inr p)
  then obtain ca where "conflictAnalysis_of (evidence env claim) = Inr ca"
    "build_prompt claim context (evidence env claim) ca = Inr p"
    unfolding verify_prompt_Inr by blast
  from verifyClaim_reaches [OF this] assms
  have v: "model_verdict env (evidence env claim) ca p = Inr v" by simp
  let ?rs = "evidence env claim"
  show ?thesis
  proof (cases "cohere env p")
    case (Throws e)
    from model_verdict_throws [OF Throws, of ?rs ca] v show ?thesis by auto
  next
    case (Text t parsed)
    show ?thesis
    proof (cases parsed)
      case None
      with Text model_verdict_malformed [of env p t ?rs ca] v show ?thesis by auto
    next
      case (Some x)
      show ?thesis
      proof (cases "from_parsed ?rs ca x")
        case (Inl e)
        with Text Some model_verdict_caught [of env p t x ?rs ca e] v show ?thesis by auto
      next
        case (Inr r)
        with Text Some model_verdict_parsed [of env p t x ?rs ca r] v have r: "r = v" by simp
        from Inr obtain c where
          "adjustedConfidence ?rs ca (get_prop x ''confidence'') = Inr c" "result_confidence r = c"
          by (auto simp add: from_parsed_def and_then_def Let_def split: if_splits sum.splits)
        with adjustedConfidence_in_unit_or_NaN r show ?thesis by blast
      qed
    qed
  qed
qed

text \<open>
  Claim C2, evaluated where the code departs from it.  No evidence is collected, and the
  model answers with the JSON payload \<open>{"status": "true", "confidence": "high"}\<close>.
  The string \<open>high\<close> is truthy and reads as NaN, \<open>Math.min(1, NaN)\<close> and
  \<open>Math.max(0, NaN)\<close> are NaN, and the verdict's confidence is NaN, which is not in the
  interval from 0 to 1.
\<close>

theorem confidence_not_a_number:
  "fst (verifyClaim (silent_world (payload [(''status'', JStr ''true''),
                                            (''confidence'', JStr ''high'')])) sun None) =
     Inr \<lparr>status = JStr ''true'', result_confidence = NaN, result_sources = [],
          reasoning = JStr ''No reasoning provided''\<rparr> \<and>
   \<not> in_unit_interval NaN"
  by code_simp

text \<open>
  The adjustments of a reported number \<open>c\<close>, in their order: the floor of 0.8 times the
  mean evidence confidence, the dampening on a conflict, the floor of 0.85 when a source
  name holds one of the specialized names, the floor of 0.9 for a Snopes record with a
  verdict, and the clamp.  With a single record of confidence 0.8 the result is at
  least 0.64.
\<close>

lemma find_with_verdict:
  "(case find P results of None \<Rightarrow> False | Some s \<Rightarrow> Q s) = (\<exists>r\<in>set results. P r)"
  if "\<And>r. P r \<Longrightarrow> Q r"
proof (cases "find P results")
  case None
  then have "\<not> (\<exists>r\<in>set results. P r)"
    unfolding find_None_iff by blast
  with None show ?thesis by simp
next
  case (Some s)
  then obtain i where "i < length results" "P (results ! i)" "s = results ! i"
    unfolding find_Some_iff by blast
  then have "s \<in> set results" "P s" by simp_all
  with Some that [of s] show ?thesis by auto
qed

lemma Math_max_Num: "Math_max (Num a) (Num b) = Num (max a b)"
  by simp

lemma adjustedConfidence_number:
  "adjustedConfidence results ca (JNum (Num c)) =
     (let c1 = (if results \<noteq> [] then max c (avgExternalConfidence results * 0.8) else c);
          c2 = (if hasConflicts ca then max 0.3 (c1 * 0.7) else c1);
          c3 = (if hasSpecializedSource results \<and> \<not> hasConflicts ca then max c2 0.85 else c2);
          c4 = (if (\<exists>r\<in>set results. source r = ''Snopes'' \<and> has_verdict r) \<and> \<not> hasConflicts ca
                then max c3 0.9 else c3)
      in Inr (Num (max 0 (min 1 c4))))"
proof -
  have n: "ToNumber (js_or (JNum (Num c)) (JNum (Num 0))) = Inr (Num c)"
    by (simp add: js_or_def ToNumber_def)
  have v: "(case find (\<lambda>r. source r = ''Snopes'' \<and> has_verdict r) results of
              None \<Rightarrow> False | Some s \<Rightarrow> has_verdict s) =
           (\<exists>r\<in>set results. source r = ''Snopes'' \<and> has_verdict r)"
    by (rule find_with_verdict) blast
  define c1 where "c1 = (if results \<noteq> [] then max c (avgExternalConfidence results * 0.8) else c)"
  define c2 where "c2 = (if hasConflicts ca then max 0.3 (c1 * 0.7) else c1)"
  define c3 where "c3 = (if hasSpecializedSource results \<and> \<not> hasConflicts ca then max c2 0.85 else c2)"
  define c4 where "c4 = (if (\<exists>r\<in>set results. source r = ''Snopes'' \<and> has_verdict r) \<and> \<not> hasConflicts ca
                then max c3 0.9 else c3)"
  have 1: "(if length results > 0 then Math_max (Num c) (Num (avgExternalConfidence results * 0.8))
            else Num c) = Num c1"
    unfolding c1_def by simp
  have 2: "(if hasConflicts ca then Math_max (Num 0.3) (js_times (Num c1) 0.7) else Num c1) = Num c2"
    unfolding c2_def by simp
  have 3: "(if hasSpecializedSource results \<and> \<not> hasConflicts ca then Math_max (Num c2) (Num 0.85)
            else Num c2) = Num c3"
    unfolding c3_def by simp
  have 4: "(if (case find (\<lambda>r. source r = ''Snopes'' \<and> has_verdict r) results of
                  None \<Rightarrow> False | Some s \<Rightarrow> has_verdict s) \<and> \<not> hasConflicts ca
            then Math_max (Num c3) (Num 0.9) else Num c3) = Num c4"
  proof (cases "(\<exists>r\<in>set results. source r = ''Snopes'' \<and> has_verdict r) \<and> \<not> hasConflicts ca")
    case True
    then have "c4 = max c3 0.9" by (simp only: c4_def if_True simp_thms)
    with True show ?thesis by (simp only: v if_True Math_max_Num simp_thms)
  next
    case False
    then have "c4 = c3" by (simp only: c4_def if_False)
    with False show ?thesis by (simp only: v if_False)
  qed
  have "adjustedConfidence results ca (JNum (Num c)) =
          Inr (Math_max (Num 0) (Math_min (Num 1) (Num c4)))"
    unfolding adjustedConfidence_def and_then_def Let_def n sum.case 1 2 3 4 ..
  then have e: "adjustedConfidence results ca (JNum (Num c)) = Inr (Num (max 0 (min 1 c4)))"
    by (simp only: Math_max.simps Math_min.simps)
  show ?thesis
    unfolding Let_def e c4_def c3_def c2_def c1_def ..
qed

lemma single_record_floor:
  assumes "confidence r = 0.8"
  shows "\<exists>x. adjustedConfidence [r] (analyzeSourceConflicts [as_declared r]) (JNum (Num c)) =
               Inr (Num x) \<and> 0.64 \<le> x \<and> x \<le> 1"
proof -
  have n: "hasConflicts (analyzeSourceConflicts [as_declared r]) = False"
    by (simp add: analyzeSourceConflicts_def)
  have a: "avgExternalConfidence [r] * 0.8 = 0.64"
    using assms by (simp add: avgExternalConfidence_def)
  define c1 where "c1 = max c (0.64 :: real)"
  define c3 where "c3 = (if hasSpecializedSource [r] then max c1 0.85 else c1)"
  define c4 where "c4 = (if \<exists>x\<in>set [r]. source x = ''Snopes'' \<and> has_verdict x
                         then max c3 0.9 else c3)"
  have 1: "0.64 \<le> c1" unfolding c1_def by (rule max.cobounded2)
  have 3: "0.64 \<le> c3"
  proof (cases "hasSpecializedSource [r]")
    case True
    then have "c3 = max c1 0.85" by (simp only: c3_def if_True simp_thms)
    with 1 show ?thesis by (simp only: le_max_iff_disj) simp
  next
    case False
    then have "c3 = c1" by (simp only: c3_def if_False)
    with 1 show ?thesis by simp
  qed
  have 4: "0.64 \<le> c4"
  proof (cases "\<exists>x\<in>set [r]. source x = ''Snopes'' \<and> has_verdict x")
    case True
    then have "c4 = max c3 0.9" by (simp only: c4_def if_True simp_thms)
    with 3 show ?thesis by (simp only: le_max_iff_disj) simp
  next
    case False
    then have "c4 = c3" by (simp only: c4_def if_False)
    with 3 show ?thesis by simp
  qed
  from 4 have m: "0.64 \<le> min 1 c4" by (simp only: min.bounded_iff) simp
  then have b: "0.64 \<le> max 0 (min 1 c4) \<and> max 0 (min 1 c4) \<le> 1"
    by (simp only: le_max_iff_disj max.bounded_iff) simp
  have "adjustedConfidence [r] (analyzeSourceConflicts [as_declared r]) (JNum (Num c)) =
          Inr (Num (max 0 (min 1 c4)))"
    unfolding adjustedConfidence_number Let_def n a c4_def c3_def c1_def
    by (simp only: not_Cons_self2 if_True if_False simp_thms)
  with b show ?thesis by blast
qed

text \<open>
  Claim C3, evaluated where the code departs from it.  Only the four general adapters
  are queried, and the one record collected is DuckDuckGo's, whose abstract the reply
  attributes to \<open>WHO\<close>.  The model reports the confidence 0.5; step (a) leaves it at 0.5
  (0.8 times 0.6 is 0.48), there is no conflict and no fact-check record, and still the
  verdict's confidence is 0.85.
\<close>

theorem abstract_source_boost:
  "queried (collectEvidence (abstract_world (payload [(''status'', JStr ''true''),
                                                      (''confidence'', JNum (Num 0.5))])) sun) =
     [AdapterQuery ''Wikipedia'' sun, AdapterQuery ''DuckDuckGo'' sun,
      AdapterQuery ''Snopes'' sun, AdapterQuery ''Wikidata'' sun] \<and>
   evidence (abstract_world (payload [(''status'', JStr ''true''),
                                      (''confidence'', JNum (Num 0.5))])) sun =
     [\<lparr>source = ''DuckDuckGo (WHO)'', verdict = None,
       summary = JStr ''Sunlight is a source of vitamin D.'',
       url = JStr ''https://www.who.int/sunlight'', confidence = 0.6\<rparr>] \<and>
   fst (verifyClaim (abstract_world (payload [(''status'', JStr ''true''),
                                              (''confidence'', JNum (Num 0.5))])) sun None) =
     Inr \<lparr>status = JStr ''true'', result_confidence = Num 0.85,
          result_sources = [JStr ''https://www.who.int/sunlight''],
          reasoning = JStr ''No reasoning provided''\<rparr>"
  by code_simp




text \<open>
  When the conversion of the reported confidence throws, the parsed path is left for
  the inner \<open>catch\<close>: the verdict is the fallback, with the evidence URLs alone.
\<close>

lemma from_parsed_throws:
  assumes "\<not> converts (js_or (get_prop parsed ''confidence'') (JNum (Num 0)))"
  shows "\<exists>e. from_parsed results ca parsed = Inl e"
  using assms
  by (simp add: from_parsed_def adjustedConfidence_def ToNumber_def and_then_def Let_def)


lemma unconvertible_confidence_falls_back:
  "fst (verifyClaim (wikipedia_world
                       (payload [(''sources'', JArr [nasa_page]),
                                 (''confidence'', JObj [(''toString'', JNum (Num 0))])]))
          sun None) =
     Inr \<lparr>status = JStr ''unverified'', result_confidence = Num 0.6,
          result_sources = [sun_page], reasoning = JStr ''{...}''\<rparr>"
  by code_simp





section \<open>The tools: what is verified, aggregated and cached\<close>

subsection \<open>The verifications of a webpage analysis\<close>

lemma verified_claims_append:
  "verified_claims (es @ es') = verified_claims es @ verified_claims es'"
  by (induction es rule: verified_claims.induct) simp_all

lemma source_queries_no_model_call: "verified_claims (source_queries claim) = []"
proof -
  have "verified_claims (map (\<lambda>a. AdapterQuery (fst a) claim) as) = []" for as
    by (induction as) simp_all
  then show ?thesis by (simp add: source_queries_def)
qed

lemma verifyClaim_calls:
  assumes "verifyClaim env claim context = (Inr r, calls)"
  shows "verified_claims calls = [claim]"
proof (cases "verify_prompt env claim context")
  case (Inl e)
  from verifyClaim_stops [OF Inl] assms show ?thesis by simp
next
  case (Inr p)
  then obtain ca where c: "conflictAnalysis_of (evidence env claim) = Inr ca"
    "build_prompt claim context (evidence env claim) ca = Inr p"
    unfolding verify_prompt_Inr by blast
  from build_prompt_Inr [OF c(2)] have p: "p = VerifyPrompt claim context (evidence env claim) ca" .
  from verifyClaim_reaches [OF c] assms have "calls = source_queries claim @ [ModelCall p]"
    by simp
  then show ?thesis
    unfolding p by (simp add: verified_claims_append source_queries_no_model_call)
qed

lemma verify_each_results:
  assumes "verify_each env title cs = (Inr results, calls)"
  shows "map (\<lambda>r. JStr (fst r)) results = cs \<and> verified_claims calls = map fst results"
  using assms
proof (induction cs arbitrary: results calls)
  case Nil
  then show ?case by simp
next
  case (Cons c cs)
  from Cons.prems obtain r calls1 rs calls2 where
    1: "verify_extracted env title c = (Inr r, calls1)" and
    2: "verify_each env title cs = (Inr rs, calls2)" and
    3: "results = r # rs" "calls = calls1 @ calls2"
    by (auto split: prod.splits sum.splits)
  from 1 obtain claim result where c: "c = JStr claim" and
    w: "verifyClaim env claim (Some (''From webpage: '' @ title)) = (Inr result, calls1)" and
    "r = (claim, result)"
    by (auto simp add: verify_extracted_def split: jsval.splits prod.splits sum.splits)
  with verifyClaim_calls [OF w] have v: "verified_claims calls1 = [claim]" "fst r = claim"
    by simp_all
  from Cons.IH [OF 2] 3 c v show ?case
    by (simp add: verified_claims_append)
qed

lemma analyze_webpage_complete:
  assumes a: "analyze_webpage env now db u focus =
             (AnalysisComplete title summ cred n results, db', calls)"
  obtains wc response parsed calls1 reply where
    "scrapeWebpage env u = Inr wc"
    "title = wc_title wc"
    "cohere env (ExtractPrompt (wc_title wc) (wc_content wc) focus) = Text response parsed"
    "verify_each env (wc_title wc)
       (take 3 (case parsed of Some (JArr xs) \<Rightarrow> xs | _ \<Rightarrow> [JStr response])) = (Inr results, calls1)"
    "n = length (case parsed of Some (JArr xs) \<Rightarrow> xs | _ \<Rightarrow> [JStr response])"
    "cred = credibility (avgConfidence results)"
    "calls = [PageFetch u, ModelCall (ExtractPrompt (wc_title wc) (wc_content wc) focus)] @ calls1 @
          [ModelCall (AnalysisSummaryPrompt (wc_title wc) n cred (avgConfidence results))]"
    "cohere env (AnalysisSummaryPrompt (wc_title wc) n cred (avgConfidence results)) = Text summ reply"
    "insert_webpageAnalysis now u (wc_title wc) summ
          (case parsed of Some (JArr xs) \<Rightarrow> xs | _ \<Rightarrow> [JStr response]) cred results db = Inr db'"
proof -
  have miss: "take 1 (filter (\<lambda>r. wa_url r = u) (webpageAnalyses db)) = []"
  proof (cases "take 1 (filter (\<lambda>r. wa_url r = u) (webpageAnalyses db))")
    case Nil
    then show ?thesis .
  next
    case (Cons x xs)
    with a show ?thesis by (simp add: analyze_webpage_def)
  qed
  obtain wc where s: "scrapeWebpage env u = Inr wc"
  proof (cases "scrapeWebpage env u")
    case (Inl e)
    with a miss show ?thesis by (simp add: analyze_webpage_def)
  next
    case (Inr wc)
    then show ?thesis using that by blast
  qed
  let ?ep = "ExtractPrompt (wc_title wc) (wc_content wc) focus"
  obtain response parsed where c: "callCohere env ?ep = Inr (response, parsed)"
  proof (cases "callCohere env ?ep")
    case (Inl e)
    with a miss s show ?thesis by (simp add: analyze_webpage_def Let_def)
  next
    case (Inr rp)
    then show ?thesis using that by (cases rp) blast
  qed
  let ?claims = "case parsed of Some (JArr xs) \<Rightarrow> xs | _ \<Rightarrow> [JStr response]"
  obtain rs calls1 where v: "verify_each env (wc_title wc) (take 3 ?claims) = (Inr rs, calls1)"
  proof (cases "verify_each env (wc_title wc) (take 3 ?claims)")
    case (Pair x calls1)
    show ?thesis
    proof (cases x)
      case (Inl e)
      with a miss s c Pair show ?thesis by (simp add: analyze_webpage_def Let_def)
    next
      case (Inr rs)
      with Pair show ?thesis using that by blast
    qed
  qed
  let ?avg = "avgConfidence rs"
  let ?sp = "AnalysisSummaryPrompt (wc_title wc) (length ?claims) (credibility ?avg) ?avg"
  obtain summ' reply where m: "callCohere env ?sp = Inr (summ', reply)"
  proof (cases "callCohere env ?sp")
    case (Inl e)
    with a miss s c v show ?thesis by (simp add: analyze_webpage_def Let_def)
  next
    case (Inr rp)
    then show ?thesis using that by (cases rp) blast
  qed
  obtain db'' where d: "insert_webpageAnalysis now u (wc_title wc) summ' ?claims
                          (credibility ?avg) rs db = Inr db''"
  proof (cases "insert_webpageAnalysis now u (wc_title wc) summ' ?claims (credibility ?avg) rs db")
    case (Inl e)
    with a miss s c v m show ?thesis by (simp add: analyze_webpage_def Let_def)
  next
    case (Inr db'')
    then show ?thesis using that by blast
  qed
  from a miss s c v m d have r:
    "title = wc_title wc" "summ = summ'" "cred = credibility ?avg" "n = length ?claims"
    "results = rs" "db' = db''"
    "calls = [PageFetch u, ModelCall ?ep] @ calls1 @ [ModelCall ?sp]"
    by (auto simp add: analyze_webpage_def Let_def)
  from c have c': "cohere env ?ep = Text response parsed"
    by (auto simp add: callCohere_def split: model_reply.splits)
  from m have m': "cohere env ?sp = Text summ' reply"
    by (auto simp add: callCohere_def split: model_reply.splits)
  show ?thesis
    using that [of wc response parsed calls1 reply] s r c' v m' d by simp
qed

text \<open>
  Claim C10.  When \<open>analyze_webpage\<close> completes an analysis (which it does on a cache
  miss only), the model was asked to extract claims and answered with a text; the
  extracted claims are the array that text parses to, or the text itself as the only
  claim; all of them are stored in \<open>claimsExtracted\<close> and counted in the response; the
  fact-check results, in the response and in the stored row alike, are the verdicts of
  the first three of them, as many as \<open>min 3\<close> of their number, and no other claim was
  sent to the model for a verdict.
\<close>

theorem first_three_claims:
  assumes "analyze_webpage env now db u focus =
             (AnalysisComplete title summ cred n results, db', calls)"
  shows "\<exists>content response parsed claims.
           cohere env (ExtractPrompt title content focus) = Text response parsed \<and>
           claims = (case parsed of Some (JArr xs) \<Rightarrow> xs | _ \<Rightarrow> [JStr response]) \<and>
           n = length claims \<and>
           length results = min 3 (length claims) \<and>
           map (\<lambda>r. JStr (fst r)) results = take 3 claims \<and>
           verified_claims calls = map fst results \<and>
           webpageAnalyses db' = webpageAnalyses db @
             [\<lparr>wa_id = Suc (length (webpageAnalyses db)), wa_url = u, wa_title = title,
               wa_summary = summ, claimsExtracted = claims, overallCredibility = cred,
               factCheckResults = results, analyzedAt = now\<rparr>]"
proof -
  from assms obtain wc response parsed calls1 reply where
    "scrapeWebpage env u = Inr wc" and
    t: "title = wc_title wc" and
    c: "cohere env (ExtractPrompt (wc_title wc) (wc_content wc) focus) = Text response parsed" and
    v: "verify_each env (wc_title wc)
          (take 3 (case parsed of Some (JArr xs) \<Rightarrow> xs | _ \<Rightarrow> [JStr response])) = (Inr results, calls1)" and
    n: "n = length (case parsed of Some (JArr xs) \<Rightarrow> xs | _ \<Rightarrow> [JStr response])" and
    "cred = credibility (avgConfidence results)" and
    k: "calls = [PageFetch u, ModelCall (ExtractPrompt (wc_title wc) (wc_content wc) focus)] @ calls1 @
          [ModelCall (AnalysisSummaryPrompt (wc_title wc) n cred (avgConfidence results))]" and
    "cohere env (AnalysisSummaryPrompt (wc_title wc) n cred (avgConfidence results)) = Text summ reply" and
    d: "insert_webpageAnalysis now u (wc_title wc) summ
          (case parsed of Some (JArr xs) \<Rightarrow> xs | _ \<Rightarrow> [JStr response]) cred results db = Inr db'"
    by (rule analyze_webpage_complete)
  let ?claims = "case parsed of Some (JArr xs) \<Rightarrow> xs | _ \<Rightarrow> [JStr response]"
  from c have c': "cohere env (ExtractPrompt title (wc_content wc) focus) = Text response parsed"
    unfolding t .
  from verify_each_results [OF v] have
    m: "map (\<lambda>r. JStr (fst r)) results = take 3 ?claims" and
    e: "verified_claims calls1 = map fst results"
    by simp_all
  have "length results = length (map (\<lambda>r. JStr (fst r)) results)" by simp
  also have "\<dots> = min 3 (length ?claims)" unfolding m by simp
  finally have l: "length results = min 3 (length ?claims)" .
  from k e have e': "verified_claims calls = map fst results"
    by (simp add: verified_claims_append)
  from d have w: "webpageAnalyses db' = webpageAnalyses db @
             [\<lparr>wa_id = Suc (length (webpageAnalyses db)), wa_url = u, wa_title = title,
               wa_summary = summ, claimsExtracted = ?claims, overallCredibility = cred,
               factCheckResults = results, analyzedAt = now\<rparr>]"
    unfolding t by (auto simp add: insert_webpageAnalysis_def split: if_splits)
  from c' n l m e' w show ?thesis by blast
qed

text \<open>
  Witness for C10: the model extracts four claims from a page; three are verified and
  four are stored.
\<close>

theorem first_three_claims_witness:
  "fst news_analysis =
     AnalysisComplete ''News'' ''A short summary.'' ''low'' 4
       [(''a'', hard_to_say), (''b'', hard_to_say), (''c'', hard_to_say)] \<and>
   verified_claims (snd (snd news_analysis)) = [''a'', ''b'', ''c''] \<and>
   map claimsExtracted (webpageAnalyses (fst (snd news_analysis))) =
     [[JStr ''a'', JStr ''b'', JStr ''c'', JStr ''d'']] \<and>
   map factCheckResults (webpageAnalyses (fst (snd news_analysis))) =
     [[(''a'', hard_to_say), (''b'', hard_to_say), (''c'', hard_to_say)]]"
proof -
  have e: "analyze_webpage page_world ''2024-01-01 10:00:00'' empty_store
             ''https://example.org/news'' None =
           (AnalysisComplete ''News'' ''A short summary.'' ''low'' 4
              [(''a'', hard_to_say), (''b'', hard_to_say), (''c'', hard_to_say)],
            fst (snd news_analysis), snd (snd news_analysis))"
    by code_simp
  have r: "fst news_analysis =
     AnalysisComplete ''News'' ''A short summary.'' ''low'' 4
       [(''a'', hard_to_say), (''b'', hard_to_say), (''c'', hard_to_say)]"
    by code_simp
  have x: "cohere page_world (ExtractPrompt ''News'' content None) =
             Text ''[...]'' (Some (JArr [JStr ''a'', JStr ''b'', JStr ''c'', JStr ''d'']))" for content
    by (simp add: page_world_def four_claims_def)
  have s: "webpageAnalyses empty_store = []"
    by (simp add: empty_store_def)
  from first_three_claims [OF e] x s have
    "verified_claims (snd (snd news_analysis)) = [''a'', ''b'', ''c''] \<and>
     map claimsExtracted (webpageAnalyses (fst (snd news_analysis))) =
       [[JStr ''a'', JStr ''b'', JStr ''c'', JStr ''d'']] \<and>
     map factCheckResults (webpageAnalyses (fst (snd news_analysis))) =
       [[(''a'', hard_to_say), (''b'', hard_to_say), (''c'', hard_to_say)]]"
    by auto
  with r show ?thesis by simp
qed

subsection \<open>The rows of a digest\<close>

lemma set_orderBy_desc: "set (orderBy_desc column rows) = set rows"
  by (simp add: orderBy_desc_def)

lemma length_orderBy_desc: "length (orderBy_desc column rows) = length rows"
  by (simp add: orderBy_desc_def)

lemma orderBy_desc_sorted:
  "sorted_wrt (\<lambda>a b. column b \<le> column a) (orderBy_desc column rows)"
proof -
  have "sorted (map column (sort_key column rows))" by (rule sorted_sort_key)
  then have "sorted_wrt (\<lambda>a b. column a \<le> column b) (sort_key column rows)"
    by (simp add: sorted_wrt_map)
  then show ?thesis
    by (simp add: orderBy_desc_def sorted_wrt_rev)
qed

lemma taken_before_dropped:
  assumes "sorted_wrt P xs" and "a \<in> set (take n xs)" and "b \<in> set (drop n xs)"
  shows "P a b"
proof -
  from assms(1) have "sorted_wrt P (take n xs @ drop n xs)" by simp
  with assms(2,3) show ?thesis unfolding sorted_wrt_append by blast
qed

lemma most_recent:
  fixes column :: "'a \<Rightarrow> string"
  shows "set (take n (orderBy_desc column (filter Q rows))) \<subseteq> {r \<in> set rows. Q r} \<and>
     length (take n (orderBy_desc column (filter Q rows))) = min n (length (filter Q rows)) \<and>
     (\<forall>r\<in>set rows. Q r \<and> r \<notin> set (take n (orderBy_desc column (filter Q rows))) \<longrightarrow>
        (\<forall>r'\<in>set (take n (orderBy_desc column (filter Q rows))). column r \<le> column r'))"
proof (intro conjI ballI impI)
  show "set (take n (orderBy_desc column (filter Q rows))) \<subseteq> {r \<in> set rows. Q r}"
    using set_take_subset [of n "orderBy_desc column (filter Q rows)"]
    by (auto simp add: set_orderBy_desc)
next
  show "length (take n (orderBy_desc column (filter Q rows))) = min n (length (filter Q rows))"
    by (simp add: length_orderBy_desc min.commute)
next
  fix r r'
  let ?os = "orderBy_desc column (filter Q rows)"
  assume r: "r \<in> set rows" and q: "Q r \<and> r \<notin> set (take n ?os)" and r': "r' \<in> set (take n ?os)"
  from r q have "r \<in> set ?os" by (simp add: set_orderBy_desc)
  then have "r \<in> set (take n ?os) \<union> set (drop n ?os)"
    by (metis append_take_drop_id set_append)
  with q have "r \<in> set (drop n ?os)" by blast
  with r' orderBy_desc_sorted [of column "filter Q rows"] show "column r \<le> column r'"
    using taken_before_dropped by fastforce
qed

lemma prefix_le: "take n s \<le> (s :: string)"
proof (induction s arbitrary: n)
  case Nil
  then show ?case by simp
next
  case (Cons c cs)
  then show ?case by (cases n) simp_all
qed

lemma day_qualifies: "day_of stamp = d \<Longrightarrow> d \<le> stamp"
  using prefix_le [of 10 stamp] by (simp add: day_of_def)

lemma no_match: "(\<forall>r\<in>set rows. \<not> P r) \<Longrightarrow> filter P rows = []"
  by (simp add: filter_empty_conv)

lemma first_match:
  assumes "\<exists>r\<in>set rows. P r"
  obtains x where "take 1 (filter P rows) = [x]" and "x \<in> set rows" and "P x"
proof -
  from assms have "filter P rows \<noteq> []" by (simp add: filter_empty_conv)
  then obtain x xs where f: "filter P rows = x # xs" by (cases "filter P rows") auto
  then have "x \<in> set (filter P rows)" by simp
  then have "x \<in> set rows" "P x" by simp_all
  with f that show ?thesis by simp
qed

lemma generate_daily_digest_hit:
  assumes "\<exists>r\<in>set (dailyDigests db). digestDate r = target_date today date"
  shows "\<exists>existing\<in>set (dailyDigests db). digestDate existing = target_date today date \<and>
     generate_daily_digest env today now db date include_trending =
       (DigestFound (target_date today date) (dd_summary existing) (trendingClaims existing),
        db, [])"
proof -
  from assms obtain x where
    "take 1 (filter (\<lambda>r. digestDate r = target_date today date) (dailyDigests db)) = [x]"
    "x \<in> set (dailyDigests db)" "digestDate x = target_date today date"
    by (rule first_match)
  then show ?thesis
    unfolding generate_daily_digest_def target_date_def [symmetric] Let_def
    by (intro bexI [of _ x]) simp_all
qed

lemma generate_daily_digest_miss:
  assumes "\<forall>r\<in>set (dailyDigests db). digestDate r \<noteq> target_date today date"
  shows "generate_daily_digest env today now db date include_trending =
     (let d = target_date today date;
          checks = recentChecks db d;
          na = length (recentAnalyses db d)
      in case cohere env (DigestSummaryPrompt d checks na) of
           Throws error \<Rightarrow>
             (ToolError (''Error generating daily digest: '' @ error_message error), db,
              digest_calls include_trending d checks na)
         | Text summ reply \<Rightarrow>
             (DigestGenerated d summ (digest_trending env include_trending checks)
                (length checks) na,
              db\<lparr>dailyDigests := dailyDigests db @
                   [\<lparr>dd_id = Suc (length (dailyDigests db)), digestDate = d,
                     trendingClaims = digest_trending env include_trending checks,
                     dd_summary = summ, generatedAt = now\<rparr>]\<rparr>,
              digest_calls include_trending d checks na))"
proof -
  from assms have f: "filter (\<lambda>r. digestDate r = target_date today date) (dailyDigests db) = []"
    by (simp add: filter_empty_conv)
  from assms have g: "\<not> list_ex (\<lambda>r. digestDate r = target_date today date) (dailyDigests db)"
    by (simp add: list_ex_iff)
  show ?thesis
    unfolding generate_daily_digest_def target_date_def [symmetric] Let_def
    by (simp add: f g callCohere_def insert_dailyDigest_def digest_trending_def digest_calls_def
        split: model_reply.splits)
qed

text \<open>
  Claim C9, as amended.  A digest that is generated for the date \<open>d\<close> is built from
  \<open>recentChecks db d\<close> and \<open>recentAnalyses db d\<close>: their lengths are the counts of the
  response, and they fill the prompts sent to the model.  These rows were created at or
  after \<open>d\<close> (their time stamp, as text, is not below \<open>d\<close>): none is from before the
  day, every row of the day \<open>d\<close> qualifies, and so does every row of a later day.  At
  most the 20 most recent verdicts and the 10 most recent analyses are taken: a
  qualifying row is left out only if every row taken is at least as recent.
\<close>

theorem digest_rows:
  "(generate_daily_digest env today now db date include_trending =
      (DigestGenerated d summ trending nc na, db', calls) \<longrightarrow>
      d = target_date today date \<and>
      nc = length (recentChecks db d) \<and> na = length (recentAnalyses db d) \<and>
      trending = digest_trending env include_trending (recentChecks db d) \<and>
      calls = digest_calls include_trending d (recentChecks db d) (length (recentAnalyses db d))) \<and>
   set (recentChecks db d) \<subseteq> {r \<in> set (factChecks db). d \<le> createdAt r} \<and>
   length (recentChecks db d) = min 20 (length (filter (\<lambda>r. d \<le> createdAt r) (factChecks db))) \<and>
   (\<forall>r\<in>set (factChecks db). d \<le> createdAt r \<and> r \<notin> set (recentChecks db d) \<longrightarrow>
      (\<forall>r'\<in>set (recentChecks db d). createdAt r \<le> createdAt r')) \<and>
   (\<forall>r\<in>set (factChecks db). day_of (createdAt r) = d \<longrightarrow> d \<le> createdAt r) \<and>
   set (recentAnalyses db d) \<subseteq> {r \<in> set (webpageAnalyses db). d \<le> analyzedAt r} \<and>
   length (recentAnalyses db d) =
     min 10 (length (filter (\<lambda>r. d \<le> analyzedAt r) (webpageAnalyses db))) \<and>
   (\<forall>r\<in>set (webpageAnalyses db). d \<le> analyzedAt r \<and> r \<notin> set (recentAnalyses db d) \<longrightarrow>
      (\<forall>r'\<in>set (recentAnalyses db d). analyzedAt r \<le> analyzedAt r')) \<and>
   (\<forall>r\<in>set (webpageAnalyses db). day_of (analyzedAt r) = d \<longrightarrow> d \<le> analyzedAt r)"
proof -
  have handler: "d = target_date today date \<and>
      nc = length (recentChecks db d) \<and> na = length (recentAnalyses db d) \<and>
      trending = digest_trending env include_trending (recentChecks db d) \<and>
      calls = digest_calls include_trending d (recentChecks db d) (length (recentAnalyses db d))"
    if g: "generate_daily_digest env today now db date include_trending =
      (DigestGenerated d summ trending nc na, db', calls)"
  proof (cases "\<exists>r\<in>set (dailyDigests db). digestDate r = target_date today date")
    case True
    from generate_daily_digest_hit [OF True, of env now include_trending] g show ?thesis
      by auto
  next
    case False
    then have "\<forall>r\<in>set (dailyDigests db). digestDate r \<noteq> target_date today date" by blast
    from generate_daily_digest_miss [OF this, of env now include_trending] g show ?thesis
      by (cases "cohere env (DigestSummaryPrompt (target_date today date)
                   (recentChecks db (target_date today date))
                   (length (recentAnalyses db (target_date today date))))")
         (auto simp add: Let_def)
  qed
  have checks: "set (recentChecks db d) \<subseteq> {r \<in> set (factChecks db). d \<le> createdAt r} \<and>
     length (recentChecks db d) = min 20 (length (filter (\<lambda>r. d \<le> createdAt r) (factChecks db))) \<and>
     (\<forall>r\<in>set (factChecks db). d \<le> createdAt r \<and> r \<notin> set (recentChecks db d) \<longrightarrow>
        (\<forall>r'\<in>set (recentChecks db d). createdAt r \<le> createdAt r'))"
    unfolding recentChecks_def
    by (rule most_recent [of 20 createdAt "\<lambda>r. d \<le> createdAt r" "factChecks db"])
  have analyses: "set (recentAnalyses db d) \<subseteq> {r \<in> set (webpageAnalyses db). d \<le> analyzedAt r} \<and>
     length (recentAnalyses db d) =
       min 10 (length (filter (\<lambda>r. d \<le> analyzedAt r) (webpageAnalyses db))) \<and>
     (\<forall>r\<in>set (webpageAnalyses db). d \<le> analyzedAt r \<and> r \<notin> set (recentAnalyses db d) \<longrightarrow>
        (\<forall>r'\<in>set (recentAnalyses db d). analyzedAt r \<le> analyzedAt r'))"
    unfolding recentAnalyses_def
    by (rule most_recent [of 10 analyzedAt "\<lambda>r. d \<le> analyzedAt r" "webpageAnalyses db"])
  from handler checks analyses show ?thesis
    using day_qualifies by blast
qed

text \<open>
  Witness for C9: of three verdicts, of 31 December, 1 January and 2 January, the digest
  for 1 January is built from the last two.
\<close>

theorem digest_rows_witness:
  "fst (generate_daily_digest (silent_world (Text ''A quiet day.'' None)) ''2024-01-03''
          ''2024-01-03 09:00:00'' three_day_store (Some ''2024-01-01'') True) =
     DigestGenerated ''2024-01-01'' ''A quiet day.'' analysis_error 2 0 \<and>
   map createdAt (recentChecks three_day_store ''2024-01-01'') =
     [''2024-01-02 08:00:00'', ''2024-01-01 12:00:00''] \<and>
   length (recentChecks three_day_store ''2024-01-01'') = 2"
proof -
  let ?g = "generate_daily_digest (silent_world (Text ''A quiet day.'' None)) ''2024-01-03''
          ''2024-01-03 09:00:00'' three_day_store (Some ''2024-01-01'') True"
  have e: "?g = (DigestGenerated ''2024-01-01'' ''A quiet day.'' analysis_error 2 0,
                 fst (snd ?g), snd (snd ?g))"
    by code_simp
  have m: "map createdAt (recentChecks three_day_store ''2024-01-01'') =
     [''2024-01-02 08:00:00'', ''2024-01-01 12:00:00'']"
    by code_simp
  from digest_rows [of "silent_world (Text ''A quiet day.'' None)" "''2024-01-03''"
      "''2024-01-03 09:00:00''" three_day_store "Some ''2024-01-01''" True
      "''2024-01-01''" "''A quiet day.''" analysis_error 2 0 "fst (snd ?g)" "snd (snd ?g)"] e
  have "2 = length (recentChecks three_day_store ''2024-01-01'')" by blast
  with e m show ?thesis by (metis fst_conv)
qed

text \<open>
  Counterexample for C9 as stated: the only stored verdict was created on 2 January, and
  the digest generated for 1 January counts it.
\<close>

theorem digest_later_day_counterexample:
  "fst (generate_daily_digest (silent_world (Text ''A quiet day.'' None)) ''2024-01-03''
          ''2024-01-03 09:00:00'' later_store (Some ''2024-01-01'') True) =
     DigestGenerated ''2024-01-01'' ''A quiet day.'' analysis_error 1 0 \<and>
   recentChecks later_store ''2024-01-01'' = factChecks later_store \<and>
   map (\<lambda>r. day_of (createdAt r)) (factChecks later_store) = [''2024-01-02'']"
  by code_simp

subsection \<open>Cache first\<close>

lemma hd_orderBy_desc:
  fixes column :: "'a \<Rightarrow> string"
  assumes "rows \<noteq> []"
  obtains x where "take 1 (orderBy_desc column rows) = [x]" and "x \<in> set rows"
    and "\<forall>r\<in>set rows. column r \<le> column x"
proof -
  from assms have "orderBy_desc column rows \<noteq> []"
    using length_orderBy_desc [of column rows] by (metis length_0_conv)
  then obtain x xs where o: "orderBy_desc column rows = x # xs"
    by (cases "orderBy_desc column rows") auto
  then have x: "x \<in> set rows"
    using set_orderBy_desc [of column rows] by auto
  have "\<forall>r\<in>set rows. column r \<le> column x"
  proof
    fix r assume "r \<in> set rows"
    then have "r \<in> set (x # xs)" using set_orderBy_desc [of column rows] o by simp
    moreover have "sorted_wrt (\<lambda>a b. column b \<le> column a) (x # xs)"
      using orderBy_desc_sorted [of column rows] o by simp
    ultimately show "column r \<le> column x" by auto
  qed
  with o x that show ?thesis by simp
qed

lemma verify_claim_hit:
  assumes "\<exists>r\<in>set (factChecks db). claimText r = claim"
  shows "\<exists>existing\<in>set (factChecks db). claimText existing = claim \<and>
     (\<forall>r\<in>set (factChecks db). claimText r = claim \<longrightarrow> createdAt r \<le> createdAt existing) \<and>
     verify_claim env now db claim context =
       (CachedResult (verificationStatus existing) (confidenceScore existing)
          (sources existing) (fc_reasoning existing), db, [])"
proof -
  let ?ms = "filter (\<lambda>r. claimText r = claim) (factChecks db)"
  from assms have "?ms \<noteq> []" by (simp add: filter_empty_conv)
  then obtain x where
    t: "take 1 (orderBy_desc createdAt ?ms) = [x]" and x: "x \<in> set ?ms" and
    m: "\<forall>r\<in>set ?ms. createdAt r \<le> createdAt x"
    by (rule hd_orderBy_desc)
  from t have "verify_claim env now db claim context =
       (CachedResult (verificationStatus x) (confidenceScore x) (sources x) (fc_reasoning x), db, [])"
    by (simp add: verify_claim_def)
  with x m show ?thesis by (intro bexI [of _ x]) auto
qed

text \<open>A value the store binds converts to a string, so the response can be built.\<close>

lemma bound_converts:
  assumes "bind_text env v = Inr c"
  shows "converts v"
proof (cases v)
  case (JArr xs)
  with assms have "list_all (\<lambda>x. case x of JNum n \<Rightarrow> True | _ \<Rightarrow> False) xs"
    by (simp add: bind_text_def refused_def split: if_splits)
  then have "list_all converts xs"
    by (induction xs) (auto split: jsval.splits)
  with JArr show ?thesis by simp
next
  case (JObj kvs)
  with assms show ?thesis by (simp add: bind_text_def refused_def)
qed simp_all

lemma fact_check_row_Inr:
  assumes "fact_check_row env now claim result n = Inr row"
  shows "claimText row = claim \<and> converts (status result) \<and> converts (reasoning result)"
proof -
  from assms obtain sc where s: "bind_text env (status result) = Inr sc"
    by (cases "bind_text env (status result)") (simp_all add: fact_check_row_def and_then_def)
  with assms obtain rc where r: "bind_text env (reasoning result) = Inr rc"
    by (cases "bind_text env (reasoning result)") (simp_all add: fact_check_row_def and_then_def)
  from assms s r have "claimText row = claim"
    by (auto simp add: fact_check_row_def and_then_def split: if_splits)
  with bound_converts [OF s] bound_converts [OF r] show ?thesis by simp
qed

lemma verify_claim_again:
  assumes miss: "\<forall>r\<in>set (factChecks db). claimText r \<noteq> claim" and "claimText row = claim"
  shows "verify_claim env' now' (db\<lparr>factChecks := factChecks db @ [row]\<rparr>) claim context' =
     (CachedResult (verificationStatus row) (confidenceScore row) (sources row) (fc_reasoning row),
      db\<lparr>factChecks := factChecks db @ [row]\<rparr>, [])"
proof -
  from miss have f: "filter (\<lambda>r. claimText r = claim) (factChecks db) = []"
    by (simp add: filter_empty_conv)
  show ?thesis
    using f assms(2) by (simp add: verify_claim_def orderBy_desc_def)
qed

lemma verify_claim_miss:
  assumes miss: "\<forall>r\<in>set (factChecks db). claimText r \<noteq> claim"
  shows "case verify_prompt env claim context of
      Inl error \<Rightarrow>
        verify_claim env now db claim context =
          (ToolError (''Error verifying claim: '' @ error_message error), db, source_queries claim)
    | Inr p \<Rightarrow>
        (\<exists>result. fst (verifyClaim env claim context) = Inr result \<and>
           (case fact_check_row env now claim result (Suc (length (factChecks db))) of
              Inl error \<Rightarrow>
                verify_claim env now db claim context =
                  (ToolError (''Error verifying claim: '' @ error_message error), db,
                   source_queries claim @ [ModelCall p])
            | Inr row \<Rightarrow>
                verify_claim env now db claim context =
                  (VerificationComplete (status result) (result_confidence result)
                     (result_sources result) (reasoning result),
                   db\<lparr>factChecks := factChecks db @ [row]\<rparr>,
                   source_queries claim @ [ModelCall p]) \<and>
                (\<forall>env' now' context'.
                   verify_claim env' now' (db\<lparr>factChecks := factChecks db @ [row]\<rparr>) claim
                       context' =
                     (CachedResult (verificationStatus row) (confidenceScore row)
                        (sources row) (fc_reasoning row),
                      db\<lparr>factChecks := factChecks db @ [row]\<rparr>, []))))"
proof -
  from miss have f: "filter (\<lambda>r. claimText r = claim) (factChecks db) = []"
    by (simp add: filter_empty_conv)
  have o: "orderBy_desc createdAt [] = ([] :: FactCheckRow list)"
    by (simp add: orderBy_desc_def)
  show ?thesis
  proof (cases "verify_prompt env claim context")
    case (Inl e)
    from verifyClaim_stops [OF Inl] f o Inl show ?thesis
      by (simp add: verify_claim_def)
  next
    case (Inr p)
    then obtain ca where "conflictAnalysis_of (evidence env claim) = Inr ca"
      "build_prompt claim context (evidence env claim) ca = Inr p"
      unfolding verify_prompt_Inr by blast
    from verifyClaim_reaches [OF this] have
      v: "verifyClaim env claim context =
            (model_verdict env (evidence env claim) ca p, source_queries claim @ [ModelCall p])" .
    obtain result where r: "model_verdict env (evidence env claim) ca p = Inr result"
      using model_verdict_returns by blast
    have "case fact_check_row env now claim result (Suc (length (factChecks db))) of
              Inl error \<Rightarrow>
                verify_claim env now db claim context =
                  (ToolError (''Error verifying claim: '' @ error_message error), db,
                   source_queries claim @ [ModelCall p])
            | Inr row \<Rightarrow>
                verify_claim env now db claim context =
                  (VerificationComplete (status result) (result_confidence result)
                     (result_sources result) (reasoning result),
                   db\<lparr>factChecks := factChecks db @ [row]\<rparr>,
                   source_queries claim @ [ModelCall p]) \<and>
                (\<forall>env' now' context'.
                   verify_claim env' now' (db\<lparr>factChecks := factChecks db @ [row]\<rparr>) claim
                       context' =
                     (CachedResult (verificationStatus row) (confidenceScore row)
                        (sources row) (fc_reasoning row),
                      db\<lparr>factChecks := factChecks db @ [row]\<rparr>, []))"
    proof (cases "fact_check_row env now claim result (Suc (length (factChecks db)))")
      case (Inl e)
      with f o v r show ?thesis
        by (simp add: verify_claim_def insert_factCheck_def and_then_def)
    next
      case (Inr row)
      from fact_check_row_Inr [OF Inr] have
        c: "claimText row = claim" "converts (status result)" "converts (reasoning result)"
        by simp_all
      from f o v r Inr c have "verify_claim env now db claim context =
                  (VerificationComplete (status result) (result_confidence result)
                     (result_sources result) (reasoning result),
                   db\<lparr>factChecks := factChecks db @ [row]\<rparr>,
                   source_queries claim @ [ModelCall p])"
        by (simp add: verify_claim_def insert_factCheck_def and_then_def)
      with Inr verify_claim_again [OF miss c(1)] show ?thesis by simp
    qed
    with v r Inr show ?thesis by auto
  qed
qed

lemma analyze_webpage_hit:
  assumes "\<exists>r\<in>set (webpageAnalyses db). wa_url r = u"
  shows "\<exists>existing\<in>set (webpageAnalyses db). wa_url existing = u \<and>
     analyze_webpage env now db u focus =
       (CachedAnalysis (wa_title existing) (wa_summary existing)
          (overallCredibility existing) (claimsExtracted existing), db, [])"
proof -
  from assms obtain x where
    "take 1 (filter (\<lambda>r. wa_url r = u) (webpageAnalyses db)) = [x]"
    "x \<in> set (webpageAnalyses db)" "wa_url x = u"
    by (rule first_match)
  then show ?thesis
    unfolding analyze_webpage_def
    by (intro bexI [of _ x]) simp_all
qed

lemma analyze_webpage_again:
  assumes miss: "\<forall>r\<in>set (webpageAnalyses db). wa_url r \<noteq> u" and "wa_url row = u"
  shows "analyze_webpage env' now' (db\<lparr>webpageAnalyses := webpageAnalyses db @ [row]\<rparr>) u focus' =
     (CachedAnalysis (wa_title row) (wa_summary row) (overallCredibility row)
        (claimsExtracted row),
      db\<lparr>webpageAnalyses := webpageAnalyses db @ [row]\<rparr>, [])"
proof -
  from miss have f: "filter (\<lambda>r. wa_url r = u) (webpageAnalyses db) = []"
    by (simp add: filter_empty_conv)
  show ?thesis
    using f assms(2) by (simp add: analyze_webpage_def)
qed

lemma analyze_webpage_miss:
  assumes miss: "\<forall>r\<in>set (webpageAnalyses db). wa_url r \<noteq> u"
  shows "case scrapeWebpage env u of
      Inl error \<Rightarrow>
        analyze_webpage env now db u focus =
          (ToolError (''Error analyzing webpage: '' @ error_message error), db, [PageFetch u])
    | Inr page \<Rightarrow>
       (case cohere env (extract_prompt page focus) of
          Throws error \<Rightarrow>
            analyze_webpage env now db u focus =
              (ToolError (''Error analyzing webpage: '' @ error_message error), db,
               [PageFetch u, ModelCall (extract_prompt page focus)])
        | Text response parsed \<Rightarrow>
           (case verify_each env (wc_title page) (take 3 (extracted_claims response parsed)) of
              (Inl error, calls) \<Rightarrow>
                analyze_webpage env now db u focus =
                  (ToolError (''Error analyzing webpage: '' @ error_message error), db,
                   [PageFetch u, ModelCall (extract_prompt page focus)] @ calls)
            | (Inr results, calls) \<Rightarrow>
               (case cohere env
                       (summary_prompt page (extracted_claims response parsed) results) of
                  Throws error \<Rightarrow>
                    analyze_webpage env now db u focus =
                      (ToolError (''Error analyzing webpage: '' @ error_message error), db,
                       [PageFetch u, ModelCall (extract_prompt page focus)] @ calls @
                       [ModelCall (summary_prompt page (extracted_claims response parsed)
                                     results)])
                | Text summ reply \<Rightarrow>
                    analyze_webpage env now db u focus =
                      (AnalysisComplete (wc_title page) summ (credibility (avgConfidence results))
                         (length (extracted_claims response parsed)) results,
                       db\<lparr>webpageAnalyses := webpageAnalyses db @
                            [analysis_row (Suc (length (webpageAnalyses db))) now u page summ
                               (extracted_claims response parsed) results]\<rparr>,
                       [PageFetch u, ModelCall (extract_prompt page focus)] @ calls @
                       [ModelCall (summary_prompt page (extracted_claims response parsed)
                                     results)]) \<and>
                    (\<forall>env' now' focus'.
                       analyze_webpage env' now'
                           (db\<lparr>webpageAnalyses := webpageAnalyses db @
                                [analysis_row (Suc (length (webpageAnalyses db))) now u page summ
                                   (extracted_claims response parsed) results]\<rparr>) u focus' =
                         (CachedAnalysis (wc_title page) summ (credibility (avgConfidence results))
                            (extracted_claims response parsed),
                          db\<lparr>webpageAnalyses := webpageAnalyses db @
                               [analysis_row (Suc (length (webpageAnalyses db))) now u page summ
                                  (extracted_claims response parsed) results]\<rparr>, [])))))"
proof -
  from miss have f: "take 1 (filter (\<lambda>r. wa_url r = u) (webpageAnalyses db)) = []"
    by (simp add: filter_empty_conv)
  from miss have g: "\<not> list_ex (\<lambda>r. wa_url r = u) (webpageAnalyses db)"
    by (simp add: list_ex_iff)
  show ?thesis
  proof (cases "scrapeWebpage env u")
    case (Inl e)
    with f show ?thesis by (simp add: analyze_webpage_def)
  next
    case s: (Inr page)
    let ?ep = "extract_prompt page focus"
    show ?thesis
    proof (cases "cohere env ?ep")
      case (Throws e)
      with f s show ?thesis
        by (simp add: analyze_webpage_def Let_def callCohere_def extract_prompt_def)
    next
      case c: (Text response parsed)
      let ?claims = "extracted_claims response parsed"
      obtain x calls where p: "verify_each env (wc_title page) (take 3 ?claims) = (x, calls)"
        by (cases "verify_each env (wc_title page) (take 3 ?claims)") simp
      show ?thesis
      proof (cases x)
        case (Inl e)
        with f s c p show ?thesis
          by (simp add: analyze_webpage_def Let_def callCohere_def extract_prompt_def
              extracted_claims_def)
      next
        case v: (Inr results)
        let ?sp = "summary_prompt page ?claims results"
        show ?thesis
        proof (cases "cohere env ?sp")
          case (Throws e)
          with f s c p v show ?thesis
            by (simp add: analyze_webpage_def Let_def callCohere_def extract_prompt_def
                extracted_claims_def summary_prompt_def)
        next
          case m: (Text summ reply)
          let ?row = "analysis_row (Suc (length (webpageAnalyses db))) now u page summ ?claims
                        results"
          have w: "wa_url ?row = u" by (simp add: analysis_row_def)
          from f g s c p v m have "analyze_webpage env now db u focus =
              (AnalysisComplete (wc_title page) summ (credibility (avgConfidence results))
                 (length ?claims) results,
               db\<lparr>webpageAnalyses := webpageAnalyses db @ [?row]\<rparr>,
               [PageFetch u, ModelCall ?ep] @ calls @ [ModelCall ?sp])"
            by (simp add: analyze_webpage_def Let_def callCohere_def extract_prompt_def
                extracted_claims_def summary_prompt_def insert_webpageAnalysis_def
                analysis_row_def)
          moreover have "\<forall>env' now' focus'.
              analyze_webpage env' now' (db\<lparr>webpageAnalyses := webpageAnalyses db @ [?row]\<rparr>) u
                  focus' =
                (CachedAnalysis (wc_title page) summ (credibility (avgConfidence results)) ?claims,
                 db\<lparr>webpageAnalyses := webpageAnalyses db @ [?row]\<rparr>, [])"
            using analyze_webpage_again [OF miss w] by (simp add: analysis_row_def)
          ultimately show ?thesis using s c p v m by simp
        qed
      qed
    qed
  qed
qed

lemma generate_daily_digest_again:
  assumes miss: "\<forall>r\<in>set (dailyDigests db). digestDate r \<noteq> d"
    and "digestDate row = d" and "target_date today' date' = d"
  shows "generate_daily_digest env' today' now' (db\<lparr>dailyDigests := dailyDigests db @ [row]\<rparr>)
           date' include_trending' =
     (DigestFound d (dd_summary row) (trendingClaims row),
      db\<lparr>dailyDigests := dailyDigests db @ [row]\<rparr>, [])"
proof -
  from miss have f: "filter (\<lambda>r. digestDate r = d) (dailyDigests db) = []"
    by (simp add: filter_empty_conv)
  show ?thesis
    unfolding generate_daily_digest_def target_date_def [symmetric] Let_def assms(3)
    using f assms(2) by simp
qed

lemma generate_daily_digest_miss_again:
  assumes miss: "\<forall>r\<in>set (dailyDigests db). digestDate r \<noteq> target_date today date"
  shows "case cohere env (DigestSummaryPrompt (target_date today date)
                  (recentChecks db (target_date today date))
                  (length (recentAnalyses db (target_date today date)))) of
      Throws error \<Rightarrow>
        generate_daily_digest env today now db date include_trending =
          (ToolError (''Error generating daily digest: '' @ error_message error), db,
           digest_calls include_trending (target_date today date)
             (recentChecks db (target_date today date))
             (length (recentAnalyses db (target_date today date))))
    | Text summ reply \<Rightarrow>
        generate_daily_digest env today now db date include_trending =
          (DigestGenerated (target_date today date) summ
             (digest_trending env include_trending (recentChecks db (target_date today date)))
             (length (recentChecks db (target_date today date)))
             (length (recentAnalyses db (target_date today date))),
           db\<lparr>dailyDigests := dailyDigests db @
                [\<lparr>dd_id = Suc (length (dailyDigests db)), digestDate = target_date today date,
                  trendingClaims =
                    digest_trending env include_trending
                      (recentChecks db (target_date today date)),
                  dd_summary = summ, generatedAt = now\<rparr>]\<rparr>,
           digest_calls include_trending (target_date today date)
             (recentChecks db (target_date today date))
             (length (recentAnalyses db (target_date today date)))) \<and>
        (\<forall>env' today' now' date' include_trending'.
           target_date today' date' = target_date today date \<longrightarrow>
           generate_daily_digest env' today' now'
               (db\<lparr>dailyDigests := dailyDigests db @
                    [\<lparr>dd_id = Suc (length (dailyDigests db)),
                      digestDate = target_date today date,
                      trendingClaims =
                        digest_trending env include_trending
                          (recentChecks db (target_date today date)),
                      dd_summary = summ, generatedAt = now\<rparr>]\<rparr>) date' include_trending' =
             (DigestFound (target_date today date) summ
                (digest_trending env include_trending (recentChecks db (target_date today date))),
              db\<lparr>dailyDigests := dailyDigests db @
                   [\<lparr>dd_id = Suc (length (dailyDigests db)),
                     digestDate = target_date today date,
                     trendingClaims =
                       digest_trending env include_trending
                         (recentChecks db (target_date today date)),
                     dd_summary = summ, generatedAt = now\<rparr>]\<rparr>, []))"
proof -
  let ?d = "target_date today date"
  let ?p = "DigestSummaryPrompt ?d (recentChecks db ?d) (length (recentAnalyses db ?d))"
  note g = generate_daily_digest_miss [OF miss, of env now include_trending]
  show ?thesis
  proof (cases "cohere env ?p")
    case (Throws e)
    with g show ?thesis by (simp add: Let_def)
  next
    case (Text summ reply)
    let ?row = "\<lparr>dd_id = Suc (length (dailyDigests db)), digestDate = ?d,
                 trendingClaims = digest_trending env include_trending (recentChecks db ?d),
                 dd_summary = summ, generatedAt = now\<rparr>"
    have r: "digestDate ?row = ?d" by simp
    have again: "generate_daily_digest env' today' now'
                   (db\<lparr>dailyDigests := dailyDigests db @ [?row]\<rparr>) date' include_trending' =
                 (DigestFound ?d summ (digest_trending env include_trending (recentChecks db ?d)),
                  db\<lparr>dailyDigests := dailyDigests db @ [?row]\<rparr>, [])"
      if "target_date today' date' = ?d" for env' today' now' date' include_trending'
      using generate_daily_digest_again [OF miss r that] by simp
    from g Text have "generate_daily_digest env today now db date include_trending =
      (DigestGenerated ?d summ (digest_trending env include_trending (recentChecks db ?d))
         (length (recentChecks db ?d)) (length (recentAnalyses db ?d)),
       db\<lparr>dailyDigests := dailyDigests db @ [?row]\<rparr>,
       digest_calls include_trending ?d (recentChecks db ?d) (length (recentAnalyses db ?d)))"
      by (simp add: Let_def)
    with Text again show ?thesis by simp
  qed
qed

text \<open>
  Claim C1, as amended.  Each tool first looks its key up in the store: the claim text
  (taking a row with the latest creation time), the URL, the date of the digest.  If a
  row is there, the tool answers with the fields of that row, leaves the store as it is
  and makes no external call.  If none is there, the tool runs its pipeline, and what
  follows depends on how the pipeline ends.

  The verifier queries the sources of \<open>source_queries\<close>.  If the conflict analysis or
  the prompt building throws, the tool answers with the error text and stores nothing.
  Otherwise the model is called and there is a verdict; if the store refuses the insert
  the tool answers with the error text and stores nothing; if not, the verdict is
  returned, and the row the store has made of it is added.

  The analysis fetches the page, asks the model for the claims, verifies the first three
  and asks the model for a summary; if any of the four throws, the tool answers with the
  error text and stores nothing; if none does, the analysis is returned and stored.

  The digest asks the model for a summary; if that call throws, the tool answers with
  the error text and stores nothing; if not, the digest is returned and stored.

  Whenever a row was stored, the same request made again, whatever the world then does,
  is answered with the fields of that row, with no external call and no further insert.
\<close>

theorem cache_first:
  "((\<exists>r\<in>set (factChecks db). claimText r = claim) \<longrightarrow>
      (\<exists>existing\<in>set (factChecks db). claimText existing = claim \<and>
         (\<forall>r\<in>set (factChecks db). claimText r = claim \<longrightarrow> createdAt r \<le> createdAt existing) \<and>
         verify_claim env now db claim ctx =
           (CachedResult (verificationStatus existing) (confidenceScore existing)
              (sources existing) (fc_reasoning existing), db, []))) \<and>
   ((\<forall>r\<in>set (factChecks db). claimText r \<noteq> claim) \<longrightarrow>
      (case verify_prompt env claim ctx of
         Inl error \<Rightarrow>
           verify_claim env now db claim ctx =
             (ToolError (''Error verifying claim: '' @ error_message error), db,
              source_queries claim)
       | Inr p \<Rightarrow>
           (\<exists>result. fst (verifyClaim env claim ctx) = Inr result \<and>
              (case fact_check_row env now claim result (Suc (length (factChecks db))) of
                 Inl error \<Rightarrow>
                   verify_claim env now db claim ctx =
                     (ToolError (''Error verifying claim: '' @ error_message error), db,
                      source_queries claim @ [ModelCall p])
               | Inr row \<Rightarrow>
                   verify_claim env now db claim ctx =
                     (VerificationComplete (status result) (result_confidence result)
                        (result_sources result) (reasoning result),
                      db\<lparr>factChecks := factChecks db @ [row]\<rparr>,
                      source_queries claim @ [ModelCall p]) \<and>
                   (\<forall>env' now' context'.
                      verify_claim env' now' (db\<lparr>factChecks := factChecks db @ [row]\<rparr>) claim
                          context' =
                        (CachedResult (verificationStatus row) (confidenceScore row)
                           (sources row) (fc_reasoning row),
                         db\<lparr>factChecks := factChecks db @ [row]\<rparr>, [])))))) \<and>
   ((\<exists>r\<in>set (webpageAnalyses db). wa_url r = u) \<longrightarrow>
      (\<exists>existing\<in>set (webpageAnalyses db). wa_url existing = u \<and>
         analyze_webpage env now db u focus =
           (CachedAnalysis (wa_title existing) (wa_summary existing)
              (overallCredibility existing) (claimsExtracted existing), db, []))) \<and>
   ((\<forall>r\<in>set (webpageAnalyses db). wa_url r \<noteq> u) \<longrightarrow>
      (case scrapeWebpage env u of
         Inl error \<Rightarrow>
           analyze_webpage env now db u focus =
             (ToolError (''Error analyzing webpage: '' @ error_message error), db, [PageFetch u])
       | Inr page \<Rightarrow>
          (case cohere env (extract_prompt page focus) of
             Throws error \<Rightarrow>
               analyze_webpage env now db u focus =
                 (ToolError (''Error analyzing webpage: '' @ error_message error), db,
                  [PageFetch u, ModelCall (extract_prompt page focus)])
           | Text response parsed \<Rightarrow>
              (case verify_each env (wc_title page) (take 3 (extracted_claims response parsed)) of
                 (Inl error, calls) \<Rightarrow>
                   analyze_webpage env now db u focus =
                     (ToolError (''Error analyzing webpage: '' @ error_message error), db,
                      [PageFetch u, ModelCall (extract_prompt page focus)] @ calls)
               | (Inr results, calls) \<Rightarrow>
                  (case cohere env
                          (summary_prompt page (extracted_claims response parsed) results) of
                     Throws error \<Rightarrow>
                       analyze_webpage env now db u focus =
                         (ToolError (''Error analyzing webpage: '' @ error_message error), db,
                          [PageFetch u, ModelCall (extract_prompt page focus)] @ calls @
                          [ModelCall (summary_prompt page (extracted_claims response parsed)
                                        results)])
                   | Text summ reply \<Rightarrow>
                       analyze_webpage env now db u focus =
                         (AnalysisComplete (wc_title page) summ
                            (credibility (avgConfidence results))
                            (length (extracted_claims response parsed)) results,
                          db\<lparr>webpageAnalyses := webpageAnalyses db @
                               [analysis_row (Suc (length (webpageAnalyses db))) now u page summ
                                  (extracted_claims response parsed) results]\<rparr>,
                          [PageFetch u, ModelCall (extract_prompt page focus)] @ calls @
                          [ModelCall (summary_prompt page (extracted_claims response parsed)
                                        results)]) \<and>
                       (\<forall>env' now' focus'.
                          analyze_webpage env' now'
                              (db\<lparr>webpageAnalyses := webpageAnalyses db @
                                   [analysis_row (Suc (length (webpageAnalyses db))) now u page
                                      summ (extracted_claims response parsed) results]\<rparr>) u
                              focus' =
                            (CachedAnalysis (wc_title page) summ
                               (credibility (avgConfidence results))
                               (extracted_claims response parsed),
                             db\<lparr>webpageAnalyses := webpageAnalyses db @
                                  [analysis_row (Suc (length (webpageAnalyses db))) now u page
                                     summ (extracted_claims response parsed) results]\<rparr>,
                             []))))))) \<and>
   ((\<exists>r\<in>set (dailyDigests db). digestDate r = target_date today date) \<longrightarrow>
      (\<exists>existing\<in>set (dailyDigests db). digestDate existing = target_date today date \<and>
         generate_daily_digest env today now db date include_trending =
           (DigestFound (target_date today date) (dd_summary existing)
              (trendingClaims existing), db, []))) \<and>
   ((\<forall>r\<in>set (dailyDigests db). digestDate r \<noteq> target_date today date) \<longrightarrow>
      (case cohere env (DigestSummaryPrompt (target_date today date)
                     (recentChecks db (target_date today date))
                     (length (recentAnalyses db (target_date today date)))) of
         Throws error \<Rightarrow>
           generate_daily_digest env today now db date include_trending =
             (ToolError (''Error generating daily digest: '' @ error_message error), db,
              digest_calls include_trending (target_date today date)
                (recentChecks db (target_date today date))
                (length (recentAnalyses db (target_date today date))))
       | Text summ reply \<Rightarrow>
           generate_daily_digest env today now db date include_trending =
             (DigestGenerated (target_date today date) summ
                (digest_trending env include_trending (recentChecks db (target_date today date)))
                (length (recentChecks db (target_date today date)))
                (length (recentAnalyses db (target_date today date))),
              db\<lparr>dailyDigests := dailyDigests db @
                   [\<lparr>dd_id = Suc (length (dailyDigests db)),
                     digestDate = target_date today date,
                     trendingClaims =
                       digest_trending env include_trending
                         (recentChecks db (target_date today date)),
                     dd_summary = summ, generatedAt = now\<rparr>]\<rparr>,
              digest_calls include_trending (target_date today date)
                (recentChecks db (target_date today date))
                (length (recentAnalyses db (target_date today date)))) \<and>
           (\<forall>env' today' now' date' include_trending'.
              target_date today' date' = target_date today date \<longrightarrow>
              generate_daily_digest env' today' now'
                  (db\<lparr>dailyDigests := dailyDigests db @
                       [\<lparr>dd_id = Suc (length (dailyDigests db)),
                         digestDate = target_date today date,
                         trendingClaims =
                           digest_trending env include_trending
                             (recentChecks db (target_date today date)),
                         dd_summary = summ, generatedAt = now\<rparr>]\<rparr>) date' include_trending' =
                (DigestFound (target_date today date) summ
                   (digest_trending env include_trending
                      (recentChecks db (target_date today date))),
                 db\<lparr>dailyDigests := dailyDigests db @
                      [\<lparr>dd_id = Suc (length (dailyDigests db)),
                        digestDate = target_date today date,
                        trendingClaims =
                          digest_trending env include_trending
                            (recentChecks db (target_date today date)),
                        dd_summary = summ, generatedAt = now\<rparr>]\<rparr>, []))))"
  by (intro conjI impI verify_claim_hit verify_claim_miss analyze_webpage_hit
      analyze_webpage_miss generate_daily_digest_hit generate_daily_digest_miss_again)


text \<open>
  Witness for C1: a claim verified on the empty store and asked again; a page analysed
  and asked again; a digest generated and asked again.
\<close>

theorem cache_first_witness:
  "fst first_verdict =
     VerificationComplete (JStr ''unverified'') (Num 0.3) [] (JStr ''I cannot say.'') \<and>
   verify_claim (wikipedia_world (Throws NonError)) ''2024-01-02 10:00:00''
       (fst (snd first_verdict)) sun (Some ''Asked again'') =
     (CachedResult (TextCell ''unverified'') (Some 0.3) [] (TextCell ''I cannot say.''),
      fst (snd first_verdict), []) \<and>
   fst brief_analysis =
     AnalysisComplete ''News'' ''A short summary.'' ''low'' 1 [(''a'', hard_to_say)] \<and>
   analyze_webpage (silent_world (Throws NonError)) ''2024-01-02 10:00:00''
       (fst (snd brief_analysis)) ''https://example.org/news'' None =
     (CachedAnalysis ''News'' ''A short summary.'' ''low'' [JStr ''a''],
      fst (snd brief_analysis), []) \<and>
   fst first_digest = DigestGenerated ''2024-01-01'' ''A quiet day.'' analysis_error 1 0 \<and>
   generate_daily_digest (silent_world (Throws NonError)) ''2024-01-04'' ''2024-01-04 09:00:00''
       (fst (snd first_digest)) (Some ''2024-01-01'') False =
     (DigestFound ''2024-01-01'' ''A quiet day.'' analysis_error, fst (snd first_digest), [])"
proof -
  let ?w1 = "silent_world (Text ''I cannot say.'' None)"
  let ?t1 = "''2024-01-01 10:00:00''"
  let ?v1 = "\<lparr>status = JStr ''unverified'', result_confidence = Num 0.3, result_sources = [],
              reasoning = JStr ''I cannot say.''\<rparr>"
  let ?r1 = "\<lparr>fc_id = 1, claimText = sun, verificationStatus = TextCell ''unverified'',
              confidenceScore = Some 0.3, sources = [], fc_reasoning = TextCell ''I cannot say.'',
              createdAt = ?t1, updatedAt = ?t1\<rparr>"
  have m1: "\<forall>r\<in>set (factChecks empty_store). claimText r \<noteq> sun"
    by (simp add: empty_store_def)
  have p1: "verify_prompt ?w1 sun None =
              Inr (VerifyPrompt sun None [] \<lparr>hasConflicts = False, conflictSummary = []\<rparr>)"
    unfolding verify_prompt_def evidence_found [symmetric]
    by (simp add: silent_evidence conflictAnalysis_of_def build_prompt_def
        and_then_def analyzeSourceConflicts_def)
  have v1: "fst (verifyClaim ?w1 sun None) = Inr ?v1"
    by code_simp
  have r1: "fact_check_row ?w1 ?t1 sun ?v1 (Suc (length (factChecks empty_store))) = Inr ?r1"
    by code_simp
  from cache_first [where db = empty_store and claim = sun and env = ?w1
      and now = ?t1 and ctx = None,
      THEN conjunct2, THEN conjunct1, THEN mp, OF m1]
  have "fst (verify_claim ?w1 ?t1 empty_store sun None) =
          VerificationComplete (JStr ''unverified'') (Num 0.3) [] (JStr ''I cannot say.'') \<and>
        fst (snd (verify_claim ?w1 ?t1 empty_store sun None)) =
          empty_store\<lparr>factChecks := factChecks empty_store @ [?r1]\<rparr> \<and>
        (\<forall>env' now' context'.
           verify_claim env' now' (empty_store\<lparr>factChecks := factChecks empty_store @ [?r1]\<rparr>)
               sun context' =
             (CachedResult (TextCell ''unverified'') (Some 0.3) [] (TextCell ''I cannot say.''),
              empty_store\<lparr>factChecks := factChecks empty_store @ [?r1]\<rparr>, []))"
    unfolding p1 by (auto simp add: v1 r1)
  then have a1: "fst first_verdict =
     VerificationComplete (JStr ''unverified'') (Num 0.3) [] (JStr ''I cannot say.'')" and
    a2: "verify_claim (wikipedia_world (Throws NonError)) ''2024-01-02 10:00:00''
       (fst (snd first_verdict)) sun (Some ''Asked again'') =
     (CachedResult (TextCell ''unverified'') (Some 0.3) [] (TextCell ''I cannot say.''),
      fst (snd first_verdict), [])"
    by (simp_all add: first_verdict_def)

  let ?u = "''https://example.org/news''"
  let ?page = "\<lparr>wc_title = ''News'', wc_content = ''Some text.'', wc_url = ?u\<rparr>"
  let ?claims = "[JStr ''a'']"
  let ?results = "[(''a'', hard_to_say)]"
  let ?calls = "[AdapterQuery ''Wikipedia'' ''a'', AdapterQuery ''DuckDuckGo'' ''a'',
                 AdapterQuery ''Snopes'' ''a'', AdapterQuery ''Wikidata'' ''a'',
                 ModelCall (VerifyPrompt ''a'' (Some ''From webpage: News'') []
                              \<lparr>hasConflicts = False, conflictSummary = []\<rparr>)]"
  let ?row = "analysis_row (Suc (length (webpageAnalyses empty_store))) ?t1 ?u ?page
                ''A short summary.'' ?claims ?results"
  have m2: "\<forall>r\<in>set (webpageAnalyses empty_store). wa_url r \<noteq> ?u"
    by (simp add: empty_store_def)
  have s2: "scrapeWebpage brief_world ?u = Inr ?page"
    by code_simp
  have x2: "cohere brief_world (extract_prompt ?page None) =
              Text ''[...]'' (Some (JArr ?claims))"
    by (simp add: brief_world_def one_claim_def extract_prompt_def)
  have k2: "extracted_claims ''[...]'' (Some (JArr ?claims)) = ?claims"
    by (simp add: extracted_claims_def)
  have e2: "verify_each brief_world ''News'' (take 3 ?claims) = (Inr ?results, ?calls)"
    by code_simp
  have y2: "cohere brief_world (summary_prompt ?page ?claims ?results) =
              Text ''A short summary.'' None"
    by (simp add: brief_world_def one_claim_def summary_prompt_def)
  have c2: "credibility (avgConfidence ?results) = ''low''"
    by code_simp
  from cache_first [where db = empty_store and u = ?u and env = brief_world and now = ?t1
      and focus = None,
      THEN conjunct2, THEN conjunct2, THEN conjunct2, THEN conjunct1, THEN mp, OF m2]
  have "fst (analyze_webpage brief_world ?t1 empty_store ?u None) =
          AnalysisComplete ''News'' ''A short summary.'' ''low'' 1 ?results \<and>
        fst (snd (analyze_webpage brief_world ?t1 empty_store ?u None)) =
          empty_store\<lparr>webpageAnalyses := webpageAnalyses empty_store @ [?row]\<rparr> \<and>
        (\<forall>env' now' focus'.
           analyze_webpage env' now'
               (empty_store\<lparr>webpageAnalyses := webpageAnalyses empty_store @ [?row]\<rparr>) ?u focus' =
             (CachedAnalysis ''News'' ''A short summary.'' ''low'' ?claims,
              empty_store\<lparr>webpageAnalyses := webpageAnalyses empty_store @ [?row]\<rparr>, []))"
    unfolding s2 sum.case WebpageContent.simps x2 model_reply.case k2 e2 prod.case y2 c2
    by simp
  then have a3: "fst brief_analysis =
     AnalysisComplete ''News'' ''A short summary.'' ''low'' 1 [(''a'', hard_to_say)]" and
    a4: "analyze_webpage (silent_world (Throws NonError)) ''2024-01-02 10:00:00''
       (fst (snd brief_analysis)) ''https://example.org/news'' None =
     (CachedAnalysis ''News'' ''A short summary.'' ''low'' [JStr ''a''],
      fst (snd brief_analysis), [])"
    by (simp_all add: brief_analysis_def)

  let ?w3 = "silent_world (Text ''A quiet day.'' None)"
  have td: "target_date ''2024-01-03'' (Some ''2024-01-01'') = ''2024-01-01''"
           "target_date ''2024-01-04'' (Some ''2024-01-01'') = ''2024-01-01''"
    by (simp_all add: target_date_def)
  have m3: "\<forall>r\<in>set (dailyDigests later_store).
              digestDate r \<noteq> target_date ''2024-01-03'' (Some ''2024-01-01'')"
    by (simp add: later_store_def)
  have y3: "cohere ?w3 p = Text ''A quiet day.'' None" for p
    by (simp add: silent_world_def)
  have e3: "fst first_digest = DigestGenerated ''2024-01-01'' ''A quiet day.'' analysis_error 1 0"
    by code_simp
  let ?tr = "digest_trending ?w3 True (recentChecks later_store ''2024-01-01'')"
  let ?row3 = "\<lparr>dd_id = Suc (length (dailyDigests later_store)), digestDate = ''2024-01-01'',
                trendingClaims = ?tr, dd_summary = ''A quiet day.'',
                generatedAt = ''2024-01-03 09:00:00''\<rparr>"
  from cache_first [where db = later_store and today = "''2024-01-03''"
      and date = "Some ''2024-01-01''" and include_trending = True
      and env = ?w3 and now = "''2024-01-03 09:00:00''",
      THEN conjunct2, THEN conjunct2, THEN conjunct2, THEN conjunct2, THEN conjunct2,
      THEN mp, OF m3]
  have g3: "fst first_digest =
          DigestGenerated ''2024-01-01'' ''A quiet day.'' ?tr
            (length (recentChecks later_store ''2024-01-01''))
            (length (recentAnalyses later_store ''2024-01-01''))" and
    s3: "fst (snd first_digest) =
          later_store\<lparr>dailyDigests := dailyDigests later_store @ [?row3]\<rparr>" and
    again3: "\<And>env' today' now' date' include_trending'.
           target_date today' date' = ''2024-01-01'' \<Longrightarrow>
           generate_daily_digest env' today' now'
               (later_store\<lparr>dailyDigests := dailyDigests later_store @ [?row3]\<rparr>) date'
               include_trending' =
             (DigestFound ''2024-01-01'' ''A quiet day.'' ?tr,
              later_store\<lparr>dailyDigests := dailyDigests later_store @ [?row3]\<rparr>, [])"
    unfolding td y3 model_reply.case first_digest_def by simp_all
  from g3 e3 have t3: "?tr = analysis_error"
    by (simp only: tool_response.inject)
  from again3 [OF td(2), of "silent_world (Throws NonError)" "''2024-01-04 09:00:00''" False]
  have a6: "generate_daily_digest (silent_world (Throws NonError)) ''2024-01-04''
       ''2024-01-04 09:00:00'' (fst (snd first_digest)) (Some ''2024-01-01'') False =
     (DigestFound ''2024-01-01'' ''A quiet day.'' analysis_error, fst (snd first_digest), [])"
    unfolding s3 t3 .
  from a1 a2 a3 a4 e3 a6 show ?thesis by blast
qed

text \<open>
  Counterexample for C1 as stated: no analysis of the page is stored, and the page
  cannot be fetched.  The tool answers with an error text and the store is as it was:
  no result was persisted, and the same request made again fetches the page again.
\<close>

theorem page_fetch_failure_counterexample:
  "analyze_webpage (silent_world (Throws NonError)) ''2024-01-01 10:00:00'' empty_store
       ''https://example.org/news'' None =
     (ToolError
        ''Error analyzing webpage: Failed to scrape webpage: Failed to fetch webpage: Not Found'',
      empty_store, [PageFetch ''https://example.org/news''])"
  by code_simp

text \<open>
  What is stored is what the store makes of the verdict.  A confidence that is NaN is
  stored as \<open>NULL\<close>, and that is what the same request made again is answered with.  A
  reasoning that is an array of strings is refused: the tool answers with an error text
  and stores nothing.
\<close>

lemma not_a_number_stored_as_null:
  "fst (verify_claim (silent_world (payload [(''status'', JStr ''true''),
                                             (''confidence'', JStr ''high'')]))
          ''2024-01-01 10:00:00'' empty_store sun None) =
     VerificationComplete (JStr ''true'') NaN [] (JStr ''No reasoning provided'') \<and>
   fst (verify_claim (silent_world (Throws NonError)) ''2024-01-02 10:00:00''
          (fst (snd (verify_claim (silent_world (payload [(''status'', JStr ''true''),
                                                          (''confidence'', JStr ''high'')]))
                       ''2024-01-01 10:00:00'' empty_store sun None))) sun None) =
     CachedResult (TextCell ''true'') None [] (TextCell ''No reasoning provided'')"
  by code_simp

lemma refused_verdict_not_stored:
  "verify_claim (silent_world (payload [(''status'', JStr ''true''),
                                        (''confidence'', JNum (Num 0.9)),
                                        (''reasoning'', JArr [JStr ''a'', JStr ''b''])]))
     ''2024-01-01 10:00:00'' empty_store sun None =
     (ToolError ''Error verifying claim: D1_TYPE_ERROR'', empty_store,
      [AdapterQuery ''Wikipedia'' sun, AdapterQuery ''DuckDuckGo'' sun,
       AdapterQuery ''Snopes'' sun, AdapterQuery ''Wikidata'' sun,
       ModelCall (VerifyPrompt sun None [] \<lparr>hasConflicts = False, conflictSummary = []\<rparr>)])"
  by code_simp

end
